theory Spec2Isabelle
  imports Main "HOL-Library.AList"
begin

section \<open>Values exchanged with the backend\<close>

text \<open>
  The clients decode every response body with \<^verbatim>\<open>r.json()\<close>. A decoded body is
  \<^verbatim>\<open>None\<close>, a bool, an int, a str, a list or a dict with str keys; a dict is kept as
  an association list in insertion order, its keys distinct. Numbers with a fraction or an exponent
  (Python floats) are not modelled. Strings are lists of 8-bit characters; case and
  whitespace are those of ASCII.
\<close>

datatype json =
    JNull
  | JBool bool
  | JInt int
  | JStr string
  | JList "json list"
  | JObj "(string \<times> json) list"

text \<open>
  Exceptions become values. \<open>TransportError\<close> stands for whatever
  \<^verbatim>\<open>raise_for_status()\<close> or \<^verbatim>\<open>r.json()\<close> raise; \<open>RuntimeError\<close> is the one the
  export handler of \<^verbatim>\<open>app.py\<close> raises itself.
\<close>

datatype error =
    TransportError
  | AttributeError
  | TypeError
  | ValueError
  | KeyError
  | IndexError
  | RuntimeError

definition bindr :: "error + 'a \<Rightarrow> ('a \<Rightarrow> error + 'b) \<Rightarrow> error + 'b" where
  "bindr m f = (case m of Inl e \<Rightarrow> Inl e | Inr x \<Rightarrow> f x)"

text \<open>Python truthiness: \<^verbatim>\<open>not x\<close> is \<open>\<not> truthy x\<close>.\<close>

fun truthy :: "json \<Rightarrow> bool" where
  "truthy JNull = False"
| "truthy (JBool b) = b"
| "truthy (JInt n) = (n \<noteq> 0)"
| "truthy (JStr s) = (s \<noteq> [])"
| "truthy (JList xs) = (xs \<noteq> [])"
| "truthy (JObj kvs) = (kvs \<noteq> [])"

text \<open>\<^verbatim>\<open>x or y\<close>\<close>

definition py_or :: "json \<Rightarrow> json \<Rightarrow> json" where
  "py_or x y = (if truthy x then x else y)"

text \<open>\<^verbatim>\<open>x.get(k, d)\<close>: only a dict has the method.\<close>

fun py_get :: "json \<Rightarrow> string \<Rightarrow> json \<Rightarrow> error + json" where
  "py_get (JObj kvs) k d = Inr (case map_of kvs k of Some v \<Rightarrow> v | None \<Rightarrow> d)"
| "py_get _ k d = Inl AttributeError"

text \<open>
  Iteration (\<^verbatim>\<open>for r in x\<close>, \<^verbatim>\<open>list.extend(x)\<close>): a list yields its elements, a str
  its characters, a dict its keys; anything else is not iterable.
\<close>

fun py_iter :: "json \<Rightarrow> error + json list" where
  "py_iter (JList xs) = Inr xs"
| "py_iter (JStr s) = Inr (map (\<lambda>c. JStr [c]) s)"
| "py_iter (JObj kvs) = Inr (map (\<lambda>kv. JStr (fst kv)) kvs)"
| "py_iter _ = Inl TypeError"

text \<open>
  \<^verbatim>\<open>len(x)\<close> for the sized values. The clients take the length of a value only after it
  was indexed or iterated, which the unsized values do not survive; for them the
  equation is never reached.
\<close>

fun py_len :: "json \<Rightarrow> int" where
  "py_len (JList xs) = int (length xs)"
| "py_len (JStr s) = int (length s)"
| "py_len (JObj kvs) = int (length kvs)"
| "py_len _ = 0"

text \<open>\<^verbatim>\<open>x[0]\<close>: the keys of a decoded dict are strs, so the key \<^verbatim>\<open>0\<close> is never there.\<close>

fun py_item0 :: "json \<Rightarrow> error + json" where
  "py_item0 (JList []) = Inl IndexError"
| "py_item0 (JList (x # xs)) = Inr x"
| "py_item0 (JStr []) = Inl IndexError"
| "py_item0 (JStr (c # cs)) = Inr (JStr [c])"
| "py_item0 (JObj kvs) = Inl KeyError"
| "py_item0 _ = Inl TypeError"

text \<open>
  \<^verbatim>\<open>int(x)\<close>. What the builtin makes of a str (signs, blanks, underscores, the digit
  limit) is not code of this repository: it is the parameter \<open>int_of_str\<close>, \<open>None\<close>
  where the builtin raises \<^verbatim>\<open>ValueError\<close>.
\<close>

fun py_int :: "(string \<Rightarrow> int option) \<Rightarrow> json \<Rightarrow> error + int" where
  "py_int int_of_str (JInt n) = Inr n"
| "py_int int_of_str (JBool b) = Inr (if b then 1 else 0)"
| "py_int int_of_str (JStr s) = (case int_of_str s of Some n \<Rightarrow> Inr n | None \<Rightarrow> Inl ValueError)"
| "py_int int_of_str _ = Inl TypeError"

section \<open>\<^verbatim>\<open>qf3_api.py\<close>: the envelope helpers\<close>

text \<open>
  \<^verbatim>\<open>QF3Client._extract_list\<close>:
  \<^verbatim>\<open>return (resp or {}).get("data", {}).get("list", []) or []\<close>
\<close>

definition QF3_extract_list :: "json \<Rightarrow> error + json" where
  "QF3_extract_list resp =
     bindr (py_get (py_or resp (JObj [])) ''data'' (JObj [])) (\<lambda>data.
     bindr (py_get data ''list'' (JList [])) (\<lambda>lst.
     Inr (py_or lst (JList []))))"

text \<open>
  \<^verbatim>\<open>QF3Client._extract_total\<close>; its first line repeats the expression of
  \<^verbatim>\<open>_extract_list\<close>.
  \<^verbatim>\<open>
  if not lst:
      return 0
  return int(lst[0].get("cnt", len(lst)) or len(lst))
  \<close>
\<close>

definition QF3_extract_total :: "(string \<Rightarrow> int option) \<Rightarrow> json \<Rightarrow> error + int" where
  "QF3_extract_total int_of_str resp =
     bindr (QF3_extract_list resp) (\<lambda>lst.
       if \<not> truthy lst then Inr 0
       else
         bindr (py_item0 lst) (\<lambda>first.
         bindr (py_get first ''cnt'' (JInt (py_len lst))) (\<lambda>cnt.
         py_int int_of_str (py_or cnt (JInt (py_len lst))))))"

section \<open>The page loop\<close>

text \<open>
  One call of an endpoint with the filters and the page size fixed is a function of the
  page number: \<open>None\<close> when the request raises, the decoded body otherwise. A loop asks
  for every page number at most once, so a backend with state of its own is covered.

  The three fetch functions share one skeleton,
  \<^verbatim>\<open>
  page = 1
  while page <= max_pages:
      resp = <request>(page)
      <body: raise, break, or fall through>
      page += 1
  return <state>
  \<close>
  which \<open>while_pages\<close> renders once. The body of an iteration maps the response and the
  loop variables to what the iteration ends in. \<open>reqs\<close> is the log of the page numbers
  requested so far; the source keeps no such log, and nothing reads it. The result is
  the log and either the exception or the loop variables at the \<^verbatim>\<open>return\<close>.
\<close>

type_synonym backend = "int \<Rightarrow> json option"

datatype 's step = Raise error | Break 's | Continue 's

function while_pages ::
  "(json \<Rightarrow> 's \<Rightarrow> 's step) \<Rightarrow> backend \<Rightarrow> int \<Rightarrow> int \<Rightarrow> 's \<Rightarrow> int list
     \<Rightarrow> int list \<times> (error + 's)" where
  "while_pages body request max_pages page s reqs =
     (if page \<le> max_pages then
        (case request page of
           None \<Rightarrow> (reqs @ [page], Inl TransportError)
         | Some resp \<Rightarrow>
            (case body resp s of
               Raise e \<Rightarrow> (reqs @ [page], Inl e)
             | Break s' \<Rightarrow> (reqs @ [page], Inr s')
             | Continue s' \<Rightarrow>
                 while_pages body request max_pages (page + 1) s' (reqs @ [page])))
      else (reqs, Inr s))"
  by pat_completeness auto
termination
  by (relation "measure (\<lambda>(body, request, max_pages, page, s, reqs). nat (max_pages + 1 - page))")
     auto

declare while_pages.simps [simp del]

section \<open>\<^verbatim>\<open>qf3_api.py\<close>: \<^verbatim>\<open>fetch_all_heads\<close>\<close>

text \<open>
  The body of the loop of \<^verbatim>\<open>fetch_all_heads\<close>, after \<^verbatim>\<open>resp = self.head_list(...)\<close>:
  \<^verbatim>\<open>
  rows = self._extract_list(resp)
  if not rows:
      break
  all_rows.extend(rows)
  total = self._extract_total(resp)
  if len(all_rows) >= total:
      break
  \<close>
\<close>

definition fetch_all_heads_body ::
  "(string \<Rightarrow> int option) \<Rightarrow> json \<Rightarrow> json list \<Rightarrow> json list step" where
  "fetch_all_heads_body int_of_str resp all_rows =
     (case QF3_extract_list resp of
        Inl e \<Rightarrow> Raise e
      | Inr rows \<Rightarrow>
         if \<not> truthy rows then Break all_rows
         else
           (case py_iter rows of
              Inl e \<Rightarrow> Raise e
            | Inr items \<Rightarrow>
               (case QF3_extract_total int_of_str resp of
                  Inl e \<Rightarrow> Raise e
                | Inr tot \<Rightarrow>
                   if int (length (all_rows @ items)) \<ge> tot
                   then Break (all_rows @ items)
                   else Continue (all_rows @ items))))"

definition fetch_all_heads ::
  "(string \<Rightarrow> int option) \<Rightarrow> backend \<Rightarrow> int \<Rightarrow> int list \<times> (error + json list)" where
  "fetch_all_heads int_of_str head_list max_pages =
     while_pages (fetch_all_heads_body int_of_str) head_list max_pages 1 [] []"

section \<open>Dicts built by the client\<close>

text \<open>
  A dict the client builds itself (\<^verbatim>\<open>mp\<close>, \<^verbatim>\<open>dict(h)\<close>) can have any hashable key. A
  bool key is the int it equals (\<^verbatim>\<open>True == 1\<close>, with the same hash); a list or a dict is
  unhashable. \<^verbatim>\<open>d[k] = v\<close> is \<open>AList.update\<close>: a present key keeps its place, a new
  one goes to the end.
\<close>

datatype hkey = KNone | KInt int | KStr string

type_synonym pydict = "(hkey \<times> json) list"

fun hkey_of :: "json \<Rightarrow> error + hkey" where
  "hkey_of JNull = Inr KNone"
| "hkey_of (JBool b) = Inr (KInt (if b then 1 else 0))"
| "hkey_of (JInt n) = Inr (KInt n)"
| "hkey_of (JStr s) = Inr (KStr s)"
| "hkey_of _ = Inl TypeError"

text \<open>\<^verbatim>\<open>d.get(k)\<close> with a str key, on a decoded dict and on a built one.\<close>

definition jget :: "(string \<times> json) list \<Rightarrow> string \<Rightarrow> json" where
  "jget kvs k = (case map_of kvs k of Some v \<Rightarrow> v | None \<Rightarrow> JNull)"

definition dget :: "pydict \<Rightarrow> string \<Rightarrow> json" where
  "dget d k = (case map_of d (KStr k) of Some v \<Rightarrow> v | None \<Rightarrow> JNull)"

text \<open>
  \<^verbatim>\<open>dict(h)\<close>: a copy of a dict; otherwise \<^verbatim>\<open>h\<close> is iterated and every element must
  itself yield exactly two items, a hashable key and a value.
\<close>

definition pair_of :: "json \<Rightarrow> error + (json \<times> json)" where
  "pair_of e =
     (case py_iter e of
        Inl err \<Rightarrow> Inl TypeError
      | Inr items \<Rightarrow> (case items of [k, v] \<Rightarrow> Inr (k, v) | _ \<Rightarrow> Inl ValueError))"

fun dict_from_pairs :: "json list \<Rightarrow> pydict \<Rightarrow> error + pydict" where
  "dict_from_pairs [] d = Inr d"
| "dict_from_pairs (e # es) d =
     bindr (pair_of e) (\<lambda>kv.
     bindr (hkey_of (fst kv)) (\<lambda>k.
     dict_from_pairs es (AList.update k (snd kv) d)))"

fun py_dict :: "json \<Rightarrow> error + pydict" where
  "py_dict (JObj kvs) = Inr (map (\<lambda>kv. (KStr (fst kv), snd kv)) kvs)"
| "py_dict (JList xs) = dict_from_pairs xs []"
| "py_dict (JStr s) = dict_from_pairs (map (\<lambda>c. JStr [c]) s) []"
| "py_dict _ = Inl TypeError"

section \<open>\<^verbatim>\<open>qf3_api.py\<close>: \<^verbatim>\<open>build_job_equipment_map\<close>\<close>

text \<open>
  The inner loop
  \<^verbatim>\<open>
  for r in rows:
      jn = r.get("jobName")
      if not jn:
          continue
      mp[jn] = {"workcenterName": r.get("workcenterName"),
                "machineName": r.get("machineName"),
                "resourceName": r.get("resourceName")}
  \<close>
\<close>

definition equipment_of :: "(string \<times> json) list \<Rightarrow> pydict" where
  "equipment_of r =
     [(KStr ''workcenterName'', jget r ''workcenterName''),
      (KStr ''machineName'', jget r ''machineName''),
      (KStr ''resourceName'', jget r ''resourceName'')]"

type_synonym job_index = "(hkey \<times> pydict) list"

fun index_rows :: "json list \<Rightarrow> job_index \<Rightarrow> error + job_index" where
  "index_rows [] mp = Inr mp"
| "index_rows (JObj r # rs) mp =
     (let jn = jget r ''jobName'' in
      if \<not> truthy jn then index_rows rs mp
      else
        (case hkey_of jn of
           Inl e \<Rightarrow> Inl e
         | Inr k \<Rightarrow> index_rows rs (AList.update k (equipment_of r) mp)))"
| "index_rows (_ # rs) mp = Inl AttributeError"

text \<open>
  The body of the \<^verbatim>\<open>while\<close> loop, after \<^verbatim>\<open>resp = self.joborder_list(...)\<close>:
  \<^verbatim>\<open>
  rows = self._extract_list(resp)
  if not rows:
      break
  for r in rows: ...
  total = self._extract_total(resp)
  if len(mp) >= total:
      break
  \<close>
\<close>

definition build_job_equipment_map_body ::
  "(string \<Rightarrow> int option) \<Rightarrow> json \<Rightarrow> job_index \<Rightarrow> job_index step" where
  "build_job_equipment_map_body int_of_str resp mp =
     (case QF3_extract_list resp of
        Inl e \<Rightarrow> Raise e
      | Inr rows \<Rightarrow>
         if \<not> truthy rows then Break mp
         else
           (case py_iter rows of
              Inl e \<Rightarrow> Raise e
            | Inr items \<Rightarrow>
               (case index_rows items mp of
                  Inl e \<Rightarrow> Raise e
                | Inr mp' \<Rightarrow>
                   (case QF3_extract_total int_of_str resp of
                      Inl e \<Rightarrow> Raise e
                    | Inr tot \<Rightarrow>
                       if int (length mp') \<ge> tot then Break mp' else Continue mp'))))"

definition build_job_equipment_map ::
  "(string \<Rightarrow> int option) \<Rightarrow> backend \<Rightarrow> int \<Rightarrow> int list \<times> (error + job_index)" where
  "build_job_equipment_map int_of_str joborder_list max_pages =
     while_pages (build_job_equipment_map_body int_of_str) joborder_list max_pages 1 [] []"

section \<open>\<^verbatim>\<open>qf3_api.py\<close>: \<^verbatim>\<open>attach_equipment_to_heads\<close>\<close>

text \<open>\<^verbatim>\<open>sep.join(xs)\<close>: every item must be a str.\<close>

fun join_strs :: "string \<Rightarrow> string list \<Rightarrow> string" where
  "join_strs sep [] = []"
| "join_strs sep [x] = x"
| "join_strs sep (x # y # ys) = x @ sep @ join_strs sep (y # ys)"

fun strs_of :: "json list \<Rightarrow> error + string list" where
  "strs_of [] = Inr []"
| "strs_of (JStr s # xs) = bindr (strs_of xs) (\<lambda>ss. Inr (s # ss))"
| "strs_of (_ # xs) = Inl TypeError"

definition py_join :: "string \<Rightarrow> json list \<Rightarrow> error + string" where
  "py_join sep xs = bindr (strs_of xs) (\<lambda>ss. Inr (join_strs sep ss))"

text \<open>
  One iteration of \<^verbatim>\<open>for h in heads\<close>, up to \<^verbatim>\<open>out.append(h2)\<close>:
  \<^verbatim>\<open>
  h2 = dict(h)
  jn = h2.get("jobName")
  eq = job_mp.get(jn, {}) if jn else {}
  h2["workcenterName"] = eq.get("workcenterName")
  h2["machineName"] = eq.get("machineName")
  h2["resourceName"] = eq.get("resourceName")
  wc = h2.get("workcenterName") or ""
  mc = h2.get("machineName") or ""
  rs = h2.get("resourceName") or ""
  h2["equipmentDisplay"] = " / ".join([x for x in [wc, mc, rs] if x])
  \<close>
  The values of \<^verbatim>\<open>job_mp\<close> are dicts, as its annotation \<^verbatim>\<open>Dict[str, Dict[str, Any]]\<close>
  says and as \<^verbatim>\<open>build_job_equipment_map\<close> builds them.
\<close>

definition lookup_equipment :: "job_index \<Rightarrow> json \<Rightarrow> error + pydict" where
  "lookup_equipment job_mp jn =
     (if truthy jn then
        bindr (hkey_of jn) (\<lambda>k.
          Inr (case map_of job_mp k of Some eq \<Rightarrow> eq | None \<Rightarrow> []))
      else Inr [])"

definition attach_one :: "job_index \<Rightarrow> json \<Rightarrow> error + pydict" where
  "attach_one job_mp h =
     bindr (py_dict h) (\<lambda>h2.
     bindr (lookup_equipment job_mp (dget h2 ''jobName'')) (\<lambda>eq.
       let h2 = AList.update (KStr ''workcenterName'') (dget eq ''workcenterName'') h2;
           h2 = AList.update (KStr ''machineName'') (dget eq ''machineName'') h2;
           h2 = AList.update (KStr ''resourceName'') (dget eq ''resourceName'') h2;
           wc = py_or (dget h2 ''workcenterName'') (JStr '''');
           mc = py_or (dget h2 ''machineName'') (JStr '''');
           rs = py_or (dget h2 ''resourceName'') (JStr '''')
       in bindr (py_join '' / '' (filter truthy [wc, mc, rs])) (\<lambda>display.
            Inr (AList.update (KStr ''equipmentDisplay'') (JStr display) h2))))"

fun attach_equipment_to_heads :: "json list \<Rightarrow> job_index \<Rightarrow> error + pydict list" where
  "attach_equipment_to_heads [] job_mp = Inr []"
| "attach_equipment_to_heads (h # heads) job_mp =
     bindr (attach_one job_mp h) (\<lambda>h2.
     bindr (attach_equipment_to_heads heads job_mp) (\<lambda>out.
     Inr (h2 # out)))"

section \<open>\<^verbatim>\<open>qfactory_client.py\<close>: \<^verbatim>\<open>list_items_all\<close>\<close>

text \<open>
  \<^verbatim>\<open>QFactoryClient.extract_rows\<close>: the body itself when it is a list; otherwise the first
  of eight paths that leads to a list; otherwise the first value of the dict that is a
  non-empty list beginning with a dict; otherwise \<^verbatim>\<open>[]\<close>.
\<close>

fun walk_path :: "json \<Rightarrow> string list \<Rightarrow> json option" where
  "walk_path cur [] = Some cur"
| "walk_path (JObj kvs) (k # ks) =
     (case map_of kvs k of None \<Rightarrow> None | Some v \<Rightarrow> walk_path v ks)"
| "walk_path _ (k # ks) = None"

definition row_paths :: "string list list" where
  "row_paths =
     [ [''data'', ''list''], [''data'', ''rows''], [''data'', ''items''],
      [''result'', ''list''], [''result'', ''rows''],
      [''list''], [''rows''], [''items'']]"

fun first_list_on :: "json \<Rightarrow> string list list \<Rightarrow> json list option" where
  "first_list_on resp_json [] = None"
| "first_list_on resp_json (path # paths) =
     (case walk_path resp_json path of
        Some (JList xs) \<Rightarrow> Some xs
      | _ \<Rightarrow> first_list_on resp_json paths)"

fun first_record_list :: "json list \<Rightarrow> json list" where
  "first_record_list [] = []"
| "first_record_list (JList (JObj r # xs) # vs) = JObj r # xs"
| "first_record_list (_ # vs) = first_record_list vs"

fun extract_rows :: "json \<Rightarrow> json list" where
  "extract_rows (JList xs) = xs"
| "extract_rows (JObj kvs) =
     (case first_list_on (JObj kvs) row_paths of
        Some xs \<Rightarrow> xs
      | None \<Rightarrow> first_record_list (map snd kvs))"
| "extract_rows _ = []"

text \<open>
  \<^verbatim>\<open>QFactoryClient.extract_total\<close>. \<^verbatim>\<open>isinstance(v, int)\<close> holds of a bool as well, which
  every later comparison reads as 0 or 1. \<^verbatim>\<open>v.isdigit()\<close> is read for ASCII digits.
\<close>

definition isdigit :: "string \<Rightarrow> bool" where
  "isdigit s = (s \<noteq> [] \<and> list_all (\<lambda>c. 48 \<le> (of_char c :: nat) \<and> (of_char c :: nat) \<le> 57) s)"

fun total_keys :: "(string \<Rightarrow> int option) \<Rightarrow> (string \<times> json) list \<Rightarrow> string list
    \<Rightarrow> error + int option" where
  "total_keys int_of_str kvs [] = Inr None"
| "total_keys int_of_str kvs (k # ks) =
     (case jget kvs k of
        JInt n \<Rightarrow> Inr (Some n)
      | JBool b \<Rightarrow> Inr (Some (if b then 1 else 0))
      | JStr s \<Rightarrow>
          if isdigit s
          then (case int_of_str s of Some n \<Rightarrow> Inr (Some n) | None \<Rightarrow> Inl ValueError)
          else total_keys int_of_str kvs ks
      | _ \<Rightarrow> total_keys int_of_str kvs ks)"

fun extract_total :: "(string \<Rightarrow> int option) \<Rightarrow> json \<Rightarrow> error + int option" where
  "extract_total int_of_str (JObj kvs) =
     (case total_keys int_of_str kvs [''total'', ''count'', ''recordsTotal'', ''totalCount''] of
        Inl e \<Rightarrow> Inl e
      | Inr (Some n) \<Rightarrow> Inr (Some n)
      | Inr None \<Rightarrow>
         (case jget kvs ''data'' of
            JObj data \<Rightarrow>
              (case jget data ''total'' of
                 JInt n \<Rightarrow> Inr (Some n)
               | JBool b \<Rightarrow> Inr (Some (if b then 1 else 0))
               | _ \<Rightarrow> Inr None)
          | _ \<Rightarrow> Inr None))"
| "extract_total int_of_str _ = Inr None"

text \<open>
  The body of the loop of \<^verbatim>\<open>list_items_all\<close>, after \<^verbatim>\<open>resp = self.list_items_page(...)\<close>;
  the loop variables are \<^verbatim>\<open>total\<close> and \<^verbatim>\<open>all_rows\<close>. \<^verbatim>\<open>progress_cb\<close> is left at its
  default \<^verbatim>\<open>None\<close>.
  \<^verbatim>\<open>
  if total is None:
      total = self.extract_total(resp)
  rows = self.extract_rows(resp)
  all_rows.extend(rows)
  if total is not None and len(all_rows) >= total:
      break
  if len(rows) < limit:
      break
  \<close>
\<close>

definition list_items_all_body ::
  "(string \<Rightarrow> int option) \<Rightarrow> int \<Rightarrow> json \<Rightarrow> int option \<times> json list
     \<Rightarrow> (int option \<times> json list) step" where
  "list_items_all_body int_of_str limit resp s =
     (case (case fst s of None \<Rightarrow> extract_total int_of_str resp | Some t \<Rightarrow> Inr (Some t)) of
        Inl e \<Rightarrow> Raise e
      | Inr tot \<Rightarrow>
         (let rows = extract_rows resp;
              all_rows = snd s @ rows
          in if (case tot of None \<Rightarrow> False | Some t \<Rightarrow> int (length all_rows) \<ge> t)
             then Break (tot, all_rows)
             else if int (length rows) < limit then Break (tot, all_rows)
             else Continue (tot, all_rows)))"

definition list_items_all ::
  "(string \<Rightarrow> int option) \<Rightarrow> backend \<Rightarrow> int \<Rightarrow> int \<Rightarrow> int list \<times> (error + json list)" where
  "list_items_all int_of_str list_items_page limit max_pages =
     (case while_pages (list_items_all_body int_of_str limit) list_items_page max_pages 1
             (None, []) [] of
        (reqs, Inl e) \<Rightarrow> (reqs, Inl e)
      | (reqs, Inr s) \<Rightarrow> (reqs, Inr (snd s)))"

section \<open>\<^verbatim>\<open>app.py\<close>: the item-name filter\<close>

text \<open>\<^verbatim>\<open>str.strip()\<close>, \<^verbatim>\<open>str.lower()\<close>, \<^verbatim>\<open>str.split(d)\<close> and \<^verbatim>\<open>t in s\<close>, on ASCII.\<close>

definition isspace :: "char \<Rightarrow> bool" where
  "isspace c = (of_char c \<in> {9, 10, 11, 12, 13, 28, 29, 30, 31, 32 :: nat})"

definition strip :: "string \<Rightarrow> string" where
  "strip s = rev (dropWhile isspace (rev (dropWhile isspace s)))"

definition lower_char :: "char \<Rightarrow> char" where
  "lower_char c =
     (case map_of (zip ''ABCDEFGHIJKLMNOPQRSTUVWXYZ'' ''abcdefghijklmnopqrstuvwxyz'') c of
        Some l \<Rightarrow> l
      | None \<Rightarrow> c)"

definition lower :: "string \<Rightarrow> string" where
  "lower s = map lower_char s"

fun split_on :: "char \<Rightarrow> string \<Rightarrow> string list" where
  "split_on d [] = [ []]"
| "split_on d (c # cs) =
     (if c = d then [] # split_on d cs
      else (case split_on d cs of p # ps \<Rightarrow> (c # p) # ps | [] \<Rightarrow> [ [c]]))"

fun starts_with :: "string \<Rightarrow> string \<Rightarrow> bool" where
  "starts_with [] s = True"
| "starts_with (x # xs) [] = False"
| "starts_with (x # xs) (c # cs) = (x = c \<and> starts_with xs cs)"

fun py_in :: "string \<Rightarrow> string \<Rightarrow> bool" where
  "py_in t [] = (t = [])"
| "py_in t (c # cs) = (starts_with t (c # cs) \<or> py_in t cs)"

text \<open>
  \<^verbatim>\<open>_parse_and_tokens\<close>:
  \<^verbatim>\<open>
  q = (q or "").strip()
  if not q:
      return []
  parts = [p.strip() for p in q.split("%")]
  tokens = [p for p in parts if p]
  return tokens
  \<close>
\<close>

definition parse_and_tokens :: "string \<Rightarrow> string list" where
  "parse_and_tokens q =
     (let q = strip q in
      if q = [] then []
      else filter (\<lambda>p. p \<noteq> []) (map strip (split_on CHR ''%'' q)))"

text \<open>
  \<^verbatim>\<open>_filter_heads_by_item_name\<close>. \<^verbatim>\<open>name.lower()\<close> needs a str: any other truthy value of
  \<^verbatim>\<open>itemName\<close> raises.
  \<^verbatim>\<open>
  tokens = _parse_and_tokens(item_name_q)
  if not tokens:
      return heads
  out = []
  for h in heads:
      name = (h.get("itemName") or "")
      name_l = name.lower()
      ok = True
      for t in tokens:
          if t.lower() not in name_l:
              ok = False
              break
      if ok:
          out.append(h)
  return out
  \<close>
\<close>

fun str_of :: "json \<Rightarrow> error + string" where
  "str_of (JStr s) = Inr s"
| "str_of _ = Inl AttributeError"

fun matches_all :: "string list \<Rightarrow> string \<Rightarrow> bool" where
  "matches_all [] name_l = True"
| "matches_all (t # tokens) name_l =
     (if \<not> py_in (lower t) name_l then False else matches_all tokens name_l)"

fun filter_loop :: "string list \<Rightarrow> pydict list \<Rightarrow> error + pydict list" where
  "filter_loop tokens [] = Inr []"
| "filter_loop tokens (h # heads) =
     bindr (str_of (py_or (dget h ''itemName'') (JStr ''''))) (\<lambda>name.
     bindr (filter_loop tokens heads) (\<lambda>out.
     Inr (if matches_all tokens (lower name) then h # out else out)))"

definition filter_heads_by_item_name :: "pydict list \<Rightarrow> string \<Rightarrow> error + pydict list" where
  "filter_heads_by_item_name heads item_name_q =
     (let tokens = parse_and_tokens item_name_q in
      if tokens = [] then Inr heads else filter_loop tokens heads)"

section \<open>\<^verbatim>\<open>app.py\<close>: the sheet\<close>

text \<open>
  \<^verbatim>\<open>_workcenter_from_head\<close>:
  \<^verbatim>\<open>
  wc = (h.get("workcenterName") or "").strip()
  if wc:
      return wc
  ed = (h.get("equipmentDisplay") or "").strip()
  if ed:
      return ed.split("/")[0].strip()
  return (h.get("createdBy") or "").strip()
  \<close>
\<close>

definition py_strip :: "json \<Rightarrow> error + string" where
  "py_strip x = bindr (str_of x) (\<lambda>s. Inr (strip s))"

definition workcenter_from_head :: "pydict \<Rightarrow> error + string" where
  "workcenter_from_head h =
     bindr (py_strip (py_or (dget h ''workcenterName'') (JStr ''''))) (\<lambda>wc.
       if wc \<noteq> [] then Inr wc
       else
         bindr (py_strip (py_or (dget h ''equipmentDisplay'') (JStr ''''))) (\<lambda>ed.
           if ed \<noteq> [] then
             Inr (strip (case split_on CHR ''/'' ed of p # ps \<Rightarrow> p | [] \<Rightarrow> []))
           else py_strip (py_or (dget h ''createdBy'') (JStr ''''))))"

text \<open>
  The Korean literals of \<^verbatim>\<open>_excel_one_sheet_item_then_results\<close>, as their UTF-8 bytes:
  the tag of an item row, the tag of a result row, the text of the row written when an
  item has no results, and the eleven column titles.
\<close>

definition TAG_ITEM :: string where
  "TAG_ITEM = [CHR 0xED, CHR 0x92, CHR 0x88, CHR 0xEB, CHR 0xAA, CHR 0xA9]"

definition TAG_RESULT :: string where
  "TAG_RESULT = [CHR 0xEA, CHR 0xB2, CHR 0x80, CHR 0xEC, CHR 0x82, CHR 0xAC]"

definition NO_RESULT :: string where
  "NO_RESULT =
     [CHR 0x28, CHR 0xEA, CHR 0xB2, CHR 0x80, CHR 0xEC, CHR 0x82, CHR 0xAC, CHR 0xEA, CHR 0xB2,
      CHR 0xB0, CHR 0xEA, CHR 0xB3, CHR 0xBC, CHR 0x20, CHR 0xEC, CHR 0x97, CHR 0x86, CHR 0xEC,
      CHR 0x9D, CHR 0x8C, CHR 0x29]"

definition columns :: "json list" where
  "columns = map JStr
     [ [CHR 0xEA, CHR 0xB5, CHR 0xAC, CHR 0xEB, CHR 0xB6, CHR 0x84],
      [CHR 0xED, CHR 0x92, CHR 0x88, CHR 0xEB, CHR 0xAA, CHR 0xA9, CHR 0xEC, CHR 0xBD, CHR 0x94,
       CHR 0xEB, CHR 0x93, CHR 0x9C],
      [CHR 0xED, CHR 0x92, CHR 0x88, CHR 0xEB, CHR 0xAA, CHR 0xA9, CHR 0xEB, CHR 0xAA, CHR 0x85],
      [CHR 0xEC, CHR 0x9E, CHR 0x91, CHR 0xEC, CHR 0x97, CHR 0x85, CHR 0xEC, CHR 0x9E, CHR 0xA5],
      [CHR 0xEA, CHR 0xB2, CHR 0x80, CHR 0xEC, CHR 0x82, CHR 0xAC, CHR 0xED, CHR 0x95, CHR 0xAD,
       CHR 0xEB, CHR 0xAA, CHR 0xA9],
      [CHR 0xEC, CHR 0xB8, CHR 0xA1, CHR 0xEC, CHR 0xA0, CHR 0x95, CHR 0xEA, CHR 0xB0, CHR 0x92],
      [CHR 0xEB, CHR 0x8B, CHR 0xA8, CHR 0xEC, CHR 0x9C, CHR 0x84],
      [CHR 0xEA, CHR 0xB8, CHR 0xB0, CHR 0xEC, CHR 0xA4, CHR 0x80],
      [CHR 0xEC, CHR 0x83, CHR 0x81, CHR 0xED, CHR 0x95, CHR 0x9C],
      [CHR 0xED, CHR 0x95, CHR 0x98, CHR 0xED, CHR 0x95, CHR 0x9C],
      [CHR 0xED, CHR 0x8C, CHR 0x90, CHR 0xEC, CHR 0xA0, CHR 0x95]]"

text \<open>
  A row of the sheet is the list handed to \<^verbatim>\<open>ws.append\<close>. Fonts, fills, column widths
  and the frozen pane are not data and are left out, and so is what \<^verbatim>\<open>openpyxl\<close> makes
  of a cell value.
\<close>

type_synonym sheet_row = "json list"

definition item_row :: "json \<Rightarrow> json \<Rightarrow> string \<Rightarrow> sheet_row" where
  "item_row item_code item_name wc =
     [JStr TAG_ITEM, item_code, item_name, JStr wc,
      JStr '''', JStr '''', JStr '''', JStr '''', JStr '''', JStr '''', JStr '''']"

definition no_result_row :: "json \<Rightarrow> json \<Rightarrow> string \<Rightarrow> sheet_row" where
  "no_result_row item_code item_name wc =
     [JStr TAG_RESULT, item_code, item_name, JStr wc, JStr NO_RESULT,
      JStr '''', JStr '''', JStr '''', JStr '''', JStr '''', JStr '''']"

definition result_row :: "json \<Rightarrow> json \<Rightarrow> string \<Rightarrow> (string \<times> json) list \<Rightarrow> sheet_row" where
  "result_row item_code item_name wc r =
     [JStr TAG_RESULT, item_code, item_name, JStr wc,
      jget r ''level3ClassName'', jget r ''checkValue'', jget r ''unit'',
      jget r ''standardValue'', jget r ''upperLimit'', jget r ''lowerLimit'',
      jget r ''passDecision'']"

text \<open>\<^verbatim>\<open>for r in rows_l: ws.append([..., r.get("level3ClassName"), ...])\<close>\<close>

fun result_rows :: "json \<Rightarrow> json \<Rightarrow> string \<Rightarrow> json list \<Rightarrow> error + sheet_row list" where
  "result_rows item_code item_name wc [] = Inr []"
| "result_rows item_code item_name wc (JObj r # rs) =
     bindr (result_rows item_code item_name wc rs) (\<lambda>out.
     Inr (result_row item_code item_name wc r # out))"
| "result_rows item_code item_name wc (_ # rs) = Inl AttributeError"

text \<open>\<^verbatim>\<open>int(h["mfgInspectionId"])\<close>\<close>

definition inspection_id :: "(string \<Rightarrow> int option) \<Rightarrow> pydict \<Rightarrow> error + int" where
  "inspection_id int_of_str h =
     (case map_of h (KStr ''mfgInspectionId'') of
        None \<Rightarrow> Inl KeyError
      | Some v \<Rightarrow> py_int int_of_str v)"

text \<open>
  \<^verbatim>\<open>client.line_list(mfg_inspection_id=mid, page=1, limit=500, node="root")\<close> is a function
  of the inspection id and, for a backend with state of its own, of which call it is:
  the call for the \<open>i\<close>-th head, \<open>i\<close> counting from 1 as \<^verbatim>\<open>enumerate(heads2, start=1)\<close>
  does.
\<close>

type_synonym line_backend = "nat \<Rightarrow> int \<Rightarrow> json option"

text \<open>The rows one iteration of \<^verbatim>\<open>for i, h in enumerate(heads2, start=1)\<close> appends.\<close>

definition group_rows ::
  "(string \<Rightarrow> int option) \<Rightarrow> line_backend \<Rightarrow> nat \<Rightarrow> pydict \<Rightarrow> error + sheet_row list" where
  "group_rows int_of_str line_list i h =
     bindr (workcenter_from_head h) (\<lambda>wc.
       let item_code = dget h ''itemCode'';
           item_name = dget h ''itemName''
       in
       bindr (inspection_id int_of_str h) (\<lambda>mid.
         case line_list i mid of
           None \<Rightarrow> Inl TransportError
         | Some resp_l \<Rightarrow>
            bindr (QF3_extract_list resp_l) (\<lambda>rows_l.
              if \<not> truthy rows_l
              then Inr [item_row item_code item_name wc, no_result_row item_code item_name wc]
              else
                bindr (py_iter rows_l) (\<lambda>items.
                bindr (result_rows item_code item_name wc items) (\<lambda>out.
                Inr (item_row item_code item_name wc # out))))))"

text \<open>
  For the statements about the sheet: the detail collection of the \<open>i\<close>-th head as the
  iteration above obtains it, \<^verbatim>\<open>line_list\<close> for the record's inspection id, then
  \<^verbatim>\<open>_extract_list\<close>. Its items are what \<^verbatim>\<open>for r in rows_l\<close> iterates over, none when
  \<^verbatim>\<open>rows_l\<close> is falsy.
\<close>

definition detail_items ::
  "(string \<Rightarrow> int option) \<Rightarrow> line_backend \<Rightarrow> nat \<Rightarrow> pydict \<Rightarrow> error + json list" where
  "detail_items int_of_str line_list i h =
     bindr (inspection_id int_of_str h) (\<lambda>mid.
       case line_list i mid of
         None \<Rightarrow> Inl TransportError
       | Some resp_l \<Rightarrow>
          bindr (QF3_extract_list resp_l) (\<lambda>rows_l.
            if \<not> truthy rows_l then Inr [] else py_iter rows_l))"

fun sheet_loop ::
  "(string \<Rightarrow> int option) \<Rightarrow> line_backend \<Rightarrow> nat \<Rightarrow> pydict list \<Rightarrow> error + sheet_row list" where
  "sheet_loop int_of_str line_list i [] = Inr []"
| "sheet_loop int_of_str line_list i (h # heads) =
     bindr (group_rows int_of_str line_list i h) (\<lambda>rows.
     bindr (sheet_loop int_of_str line_list (i + 1) heads) (\<lambda>rest.
     Inr (rows @ rest)))"

text \<open>
  \<^verbatim>\<open>_excel_one_sheet_item_then_results\<close>: the rows of the sheet, the column titles first.
\<close>

definition excel_one_sheet_item_then_results ::
  "(string \<Rightarrow> int option) \<Rightarrow> pydict list \<Rightarrow> line_backend \<Rightarrow> error + sheet_row list" where
  "excel_one_sheet_item_then_results int_of_str heads2 line_list =
     bindr (sheet_loop int_of_str line_list 1 heads2) (\<lambda>rows. Inr (columns # rows))"

section \<open>\<^verbatim>\<open>app.py\<close>: the download handler\<close>

text \<open>
  The block the download button guards with \<^verbatim>\<open>except Exception\<close> (both fetches with
  their default \<^verbatim>\<open>max_pages = 999\<close>):
  \<^verbatim>\<open>
  job_mp = client.build_job_equipment_map(...)
  heads = client.fetch_all_heads(...)
  heads2 = client.attach_equipment_to_heads(heads, job_mp)
  heads2 = _filter_heads_by_item_name(heads2, item_name_q)
  if not heads2:
      raise RuntimeError(...)
  xbytes = _excel_one_sheet_item_then_results(heads2, client, progress_cb=_cb)
  \<close>
  \<open>Inl e\<close> is the exception the \<^verbatim>\<open>except\<close> clause reports with \<^verbatim>\<open>st.error\<close>; \<open>Inr rows\<close> is
  the sheet the download button is given.
\<close>

definition download_handler ::
  "(string \<Rightarrow> int option) \<Rightarrow> backend \<Rightarrow> backend \<Rightarrow> line_backend \<Rightarrow> string
     \<Rightarrow> error + sheet_row list" where
  "download_handler int_of_str joborder_list head_list line_list item_name_q =
     bindr (snd (build_job_equipment_map int_of_str joborder_list 999)) (\<lambda>job_mp.
     bindr (snd (fetch_all_heads int_of_str head_list 999)) (\<lambda>heads.
     bindr (attach_equipment_to_heads heads job_mp) (\<lambda>heads2.
     bindr (filter_heads_by_item_name heads2 item_name_q) (\<lambda>heads2.
       if heads2 = [] then Inl RuntimeError
       else excel_one_sheet_item_then_results int_of_str heads2 line_list))))"

section \<open>Concrete inputs\<close>

text \<open>
  Inputs on which the statements below are evaluated. \<open>no_int\<close> is an \<^verbatim>\<open>int()\<close> that
  accepts no str; none of the inputs holds a str where a number is read.
\<close>

definition no_int :: "string \<Rightarrow> int option" where
  "no_int s = None"

definition resp_of_rows :: "json list \<Rightarrow> json" where
  "resp_of_rows rows = JObj [(''data'', JObj [(''list'', JList rows)])]"

text \<open>Two pages of one record each, neither with a \<^verbatim>\<open>cnt\<close> field, then empty pages.\<close>

definition two_pages_no_cnt :: backend where
  "two_pages_no_cnt page =
     (if page = 1 then Some (resp_of_rows [JObj [(''jobName'', JStr ''J1'')]])
      else if page = 2 then Some (resp_of_rows [JObj [(''jobName'', JStr ''J2'')]])
      else Some (resp_of_rows []))"

text \<open>
  A head backend whose every page holds the same three records, each with \<^verbatim>\<open>cnt\<close> 3,
  and an item backend whose every page reports \<^verbatim>\<open>total\<close> 3 with three rows.
\<close>

definition three_rows :: "json list" where
  "three_rows =
     [JObj [(''cnt'', JInt 3), (''jobName'', JStr ''J1'')],
      JObj [(''cnt'', JInt 3), (''jobName'', JStr ''J2'')],
      JObj [(''cnt'', JInt 3), (''jobName'', JStr ''J3'')]]"

definition heads_total_3 :: backend where
  "heads_total_3 page = Some (resp_of_rows three_rows)"

definition items_total_3 :: backend where
  "items_total_3 page = Some (JObj [(''total'', JInt 3), (''rows'', JList three_rows)])"

text \<open>
  Job-order records: two with the job name \<open>J1\<close> and different workcenters, between
  them one without a job name and one whose job name is empty.
\<close>

definition job_row :: "string \<Rightarrow> string \<Rightarrow> json" where
  "job_row jn wc = JObj [(''jobName'', JStr jn), (''workcenterName'', JStr wc)]"

definition job_rows_dup :: "json list" where
  "job_rows_dup =
     [job_row ''J1'' ''A'', JObj [(''workcenterName'', JStr ''X'')], job_row [] ''Y'',
      job_row ''J1'' ''B'']"

text \<open>
  Two head records and an index that knows the job of the first only.
\<close>

definition two_heads :: "json list" where
  "two_heads =
     [JObj [(''jobName'', JStr ''J1''), (''itemName'', JStr ''Widget-A''),
            (''mfgInspectionId'', JInt 11)],
      JObj [(''jobName'', JStr ''J2''), (''itemName'', JStr ''Widget-B''),
            (''mfgInspectionId'', JInt 12)]]"

definition index_J1 :: job_index where
  "index_J1 =
     [(KStr ''J1'',
       [(KStr ''workcenterName'', JStr ''WC1''), (KStr ''machineName'', JNull),
        (KStr ''resourceName'', JNull)])]"

definition two_heads_attached :: "pydict list" where
  "two_heads_attached =
     [ [(KStr ''jobName'', JStr ''J1''), (KStr ''itemName'', JStr ''Widget-A''),
       (KStr ''mfgInspectionId'', JInt 11),
       (KStr ''workcenterName'', JStr ''WC1''), (KStr ''machineName'', JNull),
       (KStr ''resourceName'', JNull), (KStr ''equipmentDisplay'', JStr ''WC1'')],
      [(KStr ''jobName'', JStr ''J2''), (KStr ''itemName'', JStr ''Widget-B''),
       (KStr ''mfgInspectionId'', JInt 12),
       (KStr ''workcenterName'', JNull), (KStr ''machineName'', JNull),
       (KStr ''resourceName'', JNull), (KStr ''equipmentDisplay'', JStr '''')]]"




definition item_name :: "pydict \<Rightarrow> string" where
  "item_name h = (case dget h ''itemName'' of JStr s \<Rightarrow> s | _ \<Rightarrow> [])"

text \<open>
  A line backend that knows two results for inspection 11 and none for any other.
\<close>

definition lines_of_11 :: line_backend where
  "lines_of_11 i mid =
     (if mid = 11
      then Some (resp_of_rows
             [JObj [(''level3ClassName'', JStr ''width''), (''checkValue'', JInt 5)],
              JObj [(''level3ClassName'', JStr ''depth''), (''checkValue'', JInt 7)]])
      else Some (resp_of_rows []))"

text \<open>
  A job-order backend with the one record of job \<open>J1\<close> on every page, and a head
  backend with the two head records on every page.
\<close>

definition jobs_J1 :: backend where
  "jobs_J1 page = Some (resp_of_rows [job_row ''J1'' ''WC1''])"

definition heads_two :: backend where
  "heads_two page = Some (resp_of_rows two_heads)"

text \<open>
  The three records of \<open>three_rows\<close> spread over two pages, two and one, and empty pages
  after them: as head responses (every record says \<^verbatim>\<open>cnt\<close> 3) and as item responses
  (every page says \<^verbatim>\<open>total\<close> 3).
\<close>

definition page_of_three :: "int \<Rightarrow> json list" where
  "page_of_three page =
     (if page = 1 then take 2 three_rows else if page = 2 then drop 2 three_rows else [])"

definition heads_resp :: "int \<Rightarrow> json" where
  "heads_resp page = resp_of_rows (page_of_three page)"


definition items_resp :: "int \<Rightarrow> json" where
  "items_resp page = JObj [(''total'', JInt 3), (''rows'', JList (page_of_three page))]"

definition items_in_two_pages :: backend where
  "items_in_two_pages page = Some (items_resp page)"

text \<open>
  A job-order backend whose first page holds two records of the same job, each saying
  \<^verbatim>\<open>cnt\<close> 2, and whose later pages are empty.
\<close>

definition jobs_same_name :: backend where
  "jobs_same_name page =
     Some (resp_of_rows
       (if page = 1
        then [JObj [(''cnt'', JInt 2), (''jobName'', JStr ''J1''), (''workcenterName'', JStr ''A'')],
              JObj [(''cnt'', JInt 2), (''jobName'', JStr ''J1''), (''workcenterName'', JStr ''B'')]]
        else []))"

text \<open>
  For the statements about whole fetches: the rows one page contributes. For the two
  fetches of \<^verbatim>\<open>qf3_api.py\<close> these are the items of \<^verbatim>\<open>_extract_list(resp)\<close>, for
  \<^verbatim>\<open>list_items_all\<close> they are \<^verbatim>\<open>extract_rows(resp)\<close>; a page whose request or extraction
  raises contributes none.
\<close>

definition page_items :: "backend \<Rightarrow> int \<Rightarrow> json list" where
  "page_items request page =
     (case request page of
        None \<Rightarrow> []
      | Some resp \<Rightarrow>
         (case QF3_extract_list resp of
            Inl e \<Rightarrow> []
          | Inr rows \<Rightarrow>
             if \<not> truthy rows then []
             else (case py_iter rows of Inl e \<Rightarrow> [] | Inr items \<Rightarrow> items)))"

definition item_page_rows :: "backend \<Rightarrow> int \<Rightarrow> json list" where
  "item_page_rows request page =
     (case request page of None \<Rightarrow> [] | Some resp \<Rightarrow> extract_rows resp)"

text \<open>A line backend without any result.\<close>

definition no_lines :: line_backend where
  "no_lines i mid = Some (resp_of_rows [])"

section \<open>Properties\<close>

lemma bindr_simps [simp]:
  "bindr (Inl e) f = Inl e"
  "bindr (Inr x) f = f x"
  by (simp_all add: bindr_def)

subsection \<open>The total read from a page\<close>

text \<open>
  Claim C10. \<^verbatim>\<open>_extract_total\<close> returns 0 when the row list of the response is empty.
  When the list begins with a record, it returns that record's \<^verbatim>\<open>cnt\<close> if this is a
  non-zero int, and the number of rows of the page if \<^verbatim>\<open>cnt\<close> is absent, null or
  zero. Hence, when the first record of the first page has no \<^verbatim>\<open>cnt\<close>,
  \<^verbatim>\<open>fetch_all_heads\<close> requests page 1 only and returns its rows, whatever the backend
  holds on later pages.
\<close>

theorem extract_total_fallback:
  "(QF3_extract_list resp = Inr lst \<and> \<not> truthy lst \<longrightarrow> QF3_extract_total ios resp = Inr 0)
   \<and> (QF3_extract_list resp = Inr (JList (JObj r # rs)) \<and> map_of r ''cnt'' = Some (JInt n) \<and> n \<noteq> 0
        \<longrightarrow> QF3_extract_total ios resp = Inr n)
   \<and> (QF3_extract_list resp = Inr (JList (JObj r # rs))
        \<and> map_of r ''cnt'' \<in> {None, Some JNull, Some (JInt 0)}
        \<longrightarrow> QF3_extract_total ios resp = Inr (int (length (JObj r # rs))))
   \<and> (QF3_extract_list resp = Inr (JList (JObj r # rs)) \<and> map_of r ''cnt'' = None
        \<and> head_list 1 = Some resp \<and> 1 \<le> max_pages
        \<longrightarrow> fetch_all_heads ios head_list max_pages = ([1], Inr (JObj r # rs)))"
proof (intro conjI impI)
  assume "QF3_extract_list resp = Inr lst \<and> \<not> truthy lst"
  then show "QF3_extract_total ios resp = Inr 0"
    by (simp add: QF3_extract_total_def)
next
  assume "QF3_extract_list resp = Inr (JList (JObj r # rs)) \<and> map_of r ''cnt'' = Some (JInt n) \<and> n \<noteq> 0"
  then show "QF3_extract_total ios resp = Inr n"
    by (simp add: QF3_extract_total_def py_or_def)
next
  assume "QF3_extract_list resp = Inr (JList (JObj r # rs))
    \<and> map_of r ''cnt'' \<in> {None, Some JNull, Some (JInt 0)}"
  then show "QF3_extract_total ios resp = Inr (int (length (JObj r # rs)))"
    by (auto simp add: QF3_extract_total_def py_or_def)
next
  assume "QF3_extract_list resp = Inr (JList (JObj r # rs)) \<and> map_of r ''cnt'' = None
    \<and> head_list 1 = Some resp \<and> 1 \<le> max_pages"
  then show "fetch_all_heads ios head_list max_pages = ([1], Inr (JObj r # rs))"
    by (simp add: fetch_all_heads_def while_pages.simps [of _ _ _ 1]
        fetch_all_heads_body_def QF3_extract_total_def py_or_def)
qed

theorem extract_total_fallback_witness:
  "QF3_extract_total no_int (resp_of_rows []) = Inr 0
   \<and> QF3_extract_total no_int (resp_of_rows [JObj [(''cnt'', JInt 7)], JObj []]) = Inr 7
   \<and> QF3_extract_total no_int (resp_of_rows [JObj [(''cnt'', JInt 0)], JObj []]) = Inr 2
   \<and> two_pages_no_cnt 2 = Some (resp_of_rows [JObj [(''jobName'', JStr ''J2'')]])
   \<and> fetch_all_heads no_int two_pages_no_cnt 999 = ([1], Inr [JObj [(''jobName'', JStr ''J1'')]])"
  using extract_total_fallback [of "resp_of_rows []" "JList []" no_int]
    extract_total_fallback [of "resp_of_rows [JObj [(''cnt'', JInt 7)], JObj []]" _ no_int
      "[(''cnt'', JInt 7)]" "[JObj []]" 7]
    extract_total_fallback [of "resp_of_rows [JObj [(''cnt'', JInt 0)], JObj []]" _ no_int
      "[(''cnt'', JInt 0)]" "[JObj []]"]
    extract_total_fallback [of "resp_of_rows [JObj [(''jobName'', JStr ''J1'')]]" _ no_int
      "[(''jobName'', JStr ''J1'')]" "[]" _ two_pages_no_cnt 999]
  by (simp add: resp_of_rows_def QF3_extract_list_def py_or_def two_pages_no_cnt_def)

subsection \<open>The pages a loop requests\<close>

lemma while_pages_requests:
  "\<exists>q. page - 1 \<le> q \<and> q \<le> max max_pages (page - 1)
     \<and> fst (while_pages body request max_pages page s reqs) = reqs @ [page..q]"
proof (induction body request max_pages page s reqs rule: while_pages.induct)
  case (1 body request max_pages page s reqs)
  show ?case
  proof (cases "page \<le> max_pages")
    case False
    then have "fst (while_pages body request max_pages page s reqs) = reqs @ [page..page - 1]"
      by (simp add: while_pages.simps)
    then show ?thesis by (intro exI [of _ "page - 1"]) simp
  next
    case le: True
    have stop: ?thesis
      if "fst (while_pages body request max_pages page s reqs) = reqs @ [page]"
      using that le by (intro exI [of _ page]) simp
    show ?thesis
    proof (cases "request page")
      case None
      with le show ?thesis by (intro stop) (simp add: while_pages.simps)
    next
      case (Some resp)
      show ?thesis
      proof (cases "body resp s")
        case (Continue s')
        from 1 [OF le Some Continue] obtain q where q: "page \<le> q" "q \<le> max_pages"
          "fst (while_pages body request max_pages (page + 1) s' (reqs @ [page]))
             = (reqs @ [page]) @ [page + 1..q]"
          using le by auto
        have "fst (while_pages body request max_pages page s reqs) = reqs @ [page..q]"
          using q le Some Continue by (subst while_pages.simps) (simp add: upto_rec1 [of page q])
        with q le show ?thesis by (intro exI [of _ q]) simp
      next
        case (Raise e)
        with le Some show ?thesis by (intro stop) (simp add: while_pages.simps)
      next
        case (Break s')
        with le Some show ?thesis by (intro stop) (simp add: while_pages.simps)
      qed
    qed
  qed
qed

lemma while_pages_from_1:
  "length (fst (while_pages body request max_pages 1 s [])) \<le> nat max_pages
   \<and> fst (while_pages body request max_pages 1 s [])
       = [1..int (length (fst (while_pages body request max_pages 1 s [])))]"
proof -
  obtain q where q: "0 \<le> q" "q \<le> max max_pages 0"
    "fst (while_pages body request max_pages 1 s []) = [1..q]"
    using while_pages_requests [of 1 max_pages body request s "[]"] by auto
  then show ?thesis by auto
qed

lemma fst_list_items_all:
  "fst (list_items_all ios request limit max_pages)
     = fst (while_pages (list_items_all_body ios limit) request max_pages 1 (None, []) [])"
  by (simp add: list_items_all_def split: prod.splits sum.splits)

text \<open>
  Claim C8. Whatever the backend answers, each of the three fetches returns (the
  loop is a total function, its measure being \<^verbatim>\<open>max_pages + 1 - page\<close>) after at most
  \<^verbatim>\<open>max_pages\<close> page requests, and the pages it requested are 1, 2, ... in order, each
  once.
\<close>

theorem requests_bounded:
  "length (fst (fetch_all_heads ios head_list max_pages)) \<le> nat max_pages
   \<and> fst (fetch_all_heads ios head_list max_pages)
       = [1..int (length (fst (fetch_all_heads ios head_list max_pages)))]
   \<and> length (fst (build_job_equipment_map ios joborder_list max_pages)) \<le> nat max_pages
   \<and> fst (build_job_equipment_map ios joborder_list max_pages)
       = [1..int (length (fst (build_job_equipment_map ios joborder_list max_pages)))]
   \<and> length (fst (list_items_all ios list_items_page limit max_pages)) \<le> nat max_pages
   \<and> fst (list_items_all ios list_items_page limit max_pages)
       = [1..int (length (fst (list_items_all ios list_items_page limit max_pages)))]"
  unfolding fetch_all_heads_def build_job_equipment_map_def fst_list_items_all
  using while_pages_from_1 [of "fetch_all_heads_body ios" head_list max_pages "[]"]
    while_pages_from_1 [of "build_job_equipment_map_body ios" joborder_list max_pages "[]"]
    while_pages_from_1 [of "list_items_all_body ios limit" list_items_page max_pages "(None, [])"]
  by blast

subsection \<open>One request when the first page holds the whole total\<close>

text \<open>
  Claim C7. When the first page reports a total and returns that many rows (three, say),
  \<^verbatim>\<open>fetch_all_heads\<close> and \<^verbatim>\<open>list_items_all\<close> request page 1 and no other page, and
  return its rows. The loop must be allowed one page (\<^verbatim>\<open>max_pages\<close> is at least 1; its
  defaults are 999 and 9999).
\<close>

theorem total_on_first_page:
  "(head_list 1 = Some resp \<and> QF3_extract_list resp = Inr (JList rows)
      \<and> QF3_extract_total ios resp = Inr (int (length rows)) \<and> 1 \<le> max_pages
      \<longrightarrow> fetch_all_heads ios head_list max_pages = ([1], Inr rows))
   \<and> (list_items_page 1 = Some resp' \<and> extract_total ios resp' = Inr (Some (int (length (extract_rows resp'))))
      \<and> 1 \<le> max_pages
      \<longrightarrow> list_items_all ios list_items_page limit max_pages = ([1], Inr (extract_rows resp')))"
proof (intro conjI impI)
  assume "head_list 1 = Some resp \<and> QF3_extract_list resp = Inr (JList rows)
      \<and> QF3_extract_total ios resp = Inr (int (length rows)) \<and> 1 \<le> max_pages"
  then show "fetch_all_heads ios head_list max_pages = ([1], Inr rows)"
    by (simp add: fetch_all_heads_def while_pages.simps [of _ _ _ 1] fetch_all_heads_body_def)
next
  assume "list_items_page 1 = Some resp'
      \<and> extract_total ios resp' = Inr (Some (int (length (extract_rows resp'))))
      \<and> 1 \<le> max_pages"
  then show "list_items_all ios list_items_page limit max_pages = ([1], Inr (extract_rows resp'))"
    by (simp add: list_items_all_def while_pages.simps [of _ _ _ 1] list_items_all_body_def
        Let_def)
qed

theorem total_on_first_page_witness:
  "length three_rows = 3
   \<and> QF3_extract_total no_int (resp_of_rows three_rows) = Inr 3
   \<and> fetch_all_heads no_int heads_total_3 999 = ([1], Inr three_rows)
   \<and> extract_total no_int (JObj [(''total'', JInt 3), (''rows'', JList three_rows)]) = Inr (Some 3)
   \<and> list_items_all no_int items_total_3 500 999 = ([1], Inr three_rows)"
  using total_on_first_page [of heads_total_3 "resp_of_rows three_rows" three_rows no_int 999
      items_total_3 "JObj [(''total'', JInt 3), (''rows'', JList three_rows)]" 500]
  by (simp add: heads_total_3_def items_total_3_def resp_of_rows_def three_rows_def
      QF3_extract_list_def QF3_extract_total_def py_or_def jget_def row_paths_def)

subsection \<open>The index of job names\<close>

lemma index_rows_append:
  "index_rows (xs @ ys) mp = bindr (index_rows xs mp) (\<lambda>m. index_rows ys m)"
proof (induction xs mp rule: index_rows.induct)
  case (2 r rs mp)
  then show ?case by (simp add: Let_def split: sum.splits)
qed simp_all

lemma index_rows_keys:
  "index_rows rows mp = Inr mp' \<Longrightarrow>
     fst ` set mp' = fst ` set mp
       \<union> {k. \<exists>r. JObj r \<in> set rows \<and> truthy (jget r ''jobName'')
               \<and> hkey_of (jget r ''jobName'') = Inr k}"
proof (induction rows mp rule: index_rows.induct)
  case (2 r rs mp)
  show ?case
  proof (cases "truthy (jget r ''jobName'')")
    case False
    with 2 show ?thesis by (auto simp add: Let_def)
  next
    case True
    with "2.prems" obtain k where k: "hkey_of (jget r ''jobName'') = Inr k"
      "index_rows rs (AList.update k (equipment_of r) mp) = Inr mp'"
      by (auto simp add: Let_def split: sum.splits)
    from "2.IH"(2) [OF refl _ k] True
    have "fst ` set mp' = fst ` set (AList.update k (equipment_of r) mp)
       \<union> {k. \<exists>r. JObj r \<in> set rs \<and> truthy (jget r ''jobName'')
               \<and> hkey_of (jget r ''jobName'') = Inr k}"
      by simp
    with k True show ?thesis by (auto simp add: dom_update)
  qed
qed auto

lemma index_rows_other:
  "index_rows rows mp = Inr mp' \<Longrightarrow>
   \<forall>r. JObj r \<in> set rows \<and> truthy (jget r ''jobName'') \<longrightarrow> hkey_of (jget r ''jobName'') \<noteq> Inr k \<Longrightarrow>
   map_of mp' k = map_of mp k"
proof (induction rows mp rule: index_rows.induct)
  case (2 r rs mp)
  show ?case
  proof (cases "truthy (jget r ''jobName'')")
    case False
    with 2 show ?thesis by (auto simp add: Let_def)
  next
    case True
    with "2.prems" obtain k' where k: "hkey_of (jget r ''jobName'') = Inr k'"
      "index_rows rs (AList.update k' (equipment_of r) mp) = Inr mp'"
      by (auto simp add: Let_def split: sum.splits)
    with True "2.prems"(2) have "k' \<noteq> k" by auto
    moreover from "2.IH"(2) [OF refl _ k] True "2.prems"(2)
    have "map_of mp' k = map_of (AList.update k' (equipment_of r) mp) k" by auto
    ultimately show ?thesis by (simp add: update_conv')
  qed
qed auto

text \<open>
  Claim C5. Let the loop over the records \<open>rows\<close> turn the index \<open>mp\<close> into \<open>mp'\<close>. The
  keys of \<open>mp'\<close> are those of \<open>mp\<close> and the job names of the records whose \<^verbatim>\<open>jobName\<close> is
  truthy: a record whose \<^verbatim>\<open>jobName\<close> is absent or empty adds nothing. And if \<open>r\<close> is the
  last record of \<open>rows\<close> with the job name \<open>k\<close>, then \<open>mp'\<close> maps \<open>k\<close> to the three fields of
  \<open>r\<close> and to nothing of an earlier record.
\<close>

theorem index_last_write_wins:
  assumes "index_rows rows mp = Inr mp'"
  shows "fst ` set mp' = fst ` set mp
           \<union> {k. \<exists>r. JObj r \<in> set rows \<and> truthy (jget r ''jobName'')
                   \<and> hkey_of (jget r ''jobName'') = Inr k}
         \<and> (rows = before @ JObj r # after \<and> truthy (jget r ''jobName'')
             \<and> hkey_of (jget r ''jobName'') = Inr k
             \<and> (\<forall>r'. JObj r' \<in> set after \<and> truthy (jget r' ''jobName'')
                   \<longrightarrow> hkey_of (jget r' ''jobName'') \<noteq> Inr k)
             \<longrightarrow> map_of mp' k = Some (equipment_of r))"
proof (intro conjI impI, goal_cases)
  case 1
  show ?case using assms by (rule index_rows_keys)
next
  case 2
  then have rows: "rows = before @ JObj r # after" and t: "truthy (jget r ''jobName'')"
    and k: "hkey_of (jget r ''jobName'') = Inr k"
    and later: "\<forall>r'. JObj r' \<in> set after \<and> truthy (jget r' ''jobName'')
             \<longrightarrow> hkey_of (jget r' ''jobName'') \<noteq> Inr k"
    by simp_all
  from assms rows obtain m where m: "index_rows before mp = Inr m"
    "index_rows (JObj r # after) m = Inr mp'"
    by (auto simp add: index_rows_append bindr_def split: sum.splits)
  from m(2) t k have "index_rows after (AList.update k (equipment_of r) m) = Inr mp'"
    by (simp add: Let_def)
  from index_rows_other [OF this later]
  show ?case by (simp add: update_conv')
qed

theorem index_last_write_wins_witness:
  "index_rows job_rows_dup [] =
     Inr [(KStr ''J1'',
           [(KStr ''workcenterName'', JStr ''B''), (KStr ''machineName'', JNull),
            (KStr ''resourceName'', JNull)])]
   \<and> fst ` set [(KStr ''J1'',
           [(KStr ''workcenterName'', JStr ''B''), (KStr ''machineName'', JNull),
            (KStr ''resourceName'', JNull)])] = {KStr ''J1''}
   \<and> map_of [(KStr ''J1'',
           [(KStr ''workcenterName'', JStr ''B''), (KStr ''machineName'', JNull),
            (KStr ''resourceName'', JNull)])] (KStr ''J1'')
       = Some (equipment_of [(''jobName'', JStr ''J1''), (''workcenterName'', JStr ''B'')])"
proof -
  have run: "index_rows job_rows_dup [] =
     Inr [(KStr ''J1'',
           [(KStr ''workcenterName'', JStr ''B''), (KStr ''machineName'', JNull),
            (KStr ''resourceName'', JNull)])]"
    by (simp add: job_rows_dup_def job_row_def jget_def equipment_of_def)
  have split: "job_rows_dup =
      [job_row ''J1'' ''A'', JObj [(''workcenterName'', JStr ''X'')], job_row [] ''Y'']
        @ JObj [(''jobName'', JStr ''J1''), (''workcenterName'', JStr ''B'')] # []"
    by (simp add: job_rows_dup_def job_row_def)
  from index_last_write_wins [OF run, of
      "[job_row ''J1'' ''A'', JObj [(''workcenterName'', JStr ''X'')], job_row [] ''Y'']"
      "[(''jobName'', JStr ''J1''), (''workcenterName'', JStr ''B'')]" "[]" "KStr ''J1''"]
    split run
  show ?thesis by (simp add: jget_def)
qed

subsection \<open>Enrichment\<close>

lemma attach_equipment_to_heads_nth:
  "attach_equipment_to_heads heads job_mp = Inr out \<Longrightarrow>
     length out = length heads
     \<and> (\<forall>i < length heads. attach_one job_mp (heads ! i) = Inr (out ! i))"
proof (induction heads arbitrary: out)
  case Nil
  then show ?case by simp
next
  case (Cons h heads)
  from Cons.prems obtain h2 rest where parts: "attach_one job_mp h = Inr h2"
    "attach_equipment_to_heads heads job_mp = Inr rest" "out = h2 # rest"
    by (auto simp add: bindr_def split: sum.splits)
  from Cons.IH [OF parts(2)] parts show ?case
    by (auto simp add: nth_Cons split: nat.splits)
qed

lemma attach_one_result:
  assumes "attach_one job_mp h = Inr h2"
  shows "\<exists>d eq display. py_dict h = Inr d
     \<and> lookup_equipment job_mp (dget d ''jobName'') = Inr eq
     \<and> py_join '' / '' (filter truthy
           [py_or (dget eq ''workcenterName'') (JStr ''''),
            py_or (dget eq ''machineName'') (JStr ''''),
            py_or (dget eq ''resourceName'') (JStr '''')]) = Inr display
     \<and> map_of h2 = (map_of d)
          (KStr ''workcenterName'' \<mapsto> dget eq ''workcenterName'',
           KStr ''machineName'' \<mapsto> dget eq ''machineName'',
           KStr ''resourceName'' \<mapsto> dget eq ''resourceName'',
           KStr ''equipmentDisplay'' \<mapsto> JStr display)"
proof -
  from assms obtain d where d: "py_dict h = Inr d"
    by (auto simp add: attach_one_def bindr_def split: sum.splits)
  with assms obtain eq where eq: "lookup_equipment job_mp (dget d ''jobName'') = Inr eq"
    by (auto simp add: attach_one_def bindr_def split: sum.splits)
  have get: "dget (AList.update (KStr ''resourceName'') c
                    (AList.update (KStr ''machineName'') b
                      (AList.update (KStr ''workcenterName'') a d))) k
               = (if k = ''resourceName'' then c else if k = ''machineName'' then b
                  else if k = ''workcenterName'' then a else dget d k)" for a b c k
    by (simp add: dget_def update_conv')
  from assms d eq obtain display where display:
    "py_join '' / '' (filter truthy
           [py_or (dget eq ''workcenterName'') (JStr ''''),
            py_or (dget eq ''machineName'') (JStr ''''),
            py_or (dget eq ''resourceName'') (JStr '''')]) = Inr display"
    and h2: "h2 = AList.update (KStr ''equipmentDisplay'') (JStr display)
                (AList.update (KStr ''resourceName'') (dget eq ''resourceName'')
                  (AList.update (KStr ''machineName'') (dget eq ''machineName'')
                    (AList.update (KStr ''workcenterName'') (dget eq ''workcenterName'') d)))"
    by (auto simp add: attach_one_def Let_def get bindr_def simp del: filter.simps
        split: sum.splits)
  from d eq display h2 show ?thesis by (simp add: update_conv')
qed

lemma lookup_equipment_unmatched:
  assumes "lookup_equipment job_mp jn = Inr eq"
    and "\<not> truthy jn \<or> (\<exists>k. hkey_of jn = Inr k \<and> map_of job_mp k = None)"
  shows "eq = []"
  using assms by (auto simp add: lookup_equipment_def split: if_splits)

text \<open>
  Claim C3, amended. Whenever \<^verbatim>\<open>attach_equipment_to_heads\<close> returns, the output has one
  record per input record, in the same order: the \<open>i\<close>-th output record is a copy of the
  \<open>i\<close>-th input record in which exactly the four fields \<^verbatim>\<open>workcenterName\<close>,
  \<^verbatim>\<open>machineName\<close>, \<^verbatim>\<open>resourceName\<close> and \<^verbatim>\<open>equipmentDisplay\<close> are set. The four fields
  are never missing. When the record has no job name, or its job name is not a key of
  the index, the first three are null (\<^verbatim>\<open>None\<close>) and \<^verbatim>\<open>equipmentDisplay\<close> is the empty
  string.
\<close>

theorem attach_keeps_every_record:
  assumes "attach_equipment_to_heads heads job_mp = Inr out"
  shows "length out = length heads
     \<and> (\<forall>i < length heads. \<exists>d. py_dict (heads ! i) = Inr d
          \<and> (\<forall>k. k \<notin> {KStr ''workcenterName'', KStr ''machineName'', KStr ''resourceName'',
                       KStr ''equipmentDisplay''}
                 \<longrightarrow> map_of (out ! i) k = map_of d k)
          \<and> map_of (out ! i) (KStr ''workcenterName'') \<noteq> None
          \<and> map_of (out ! i) (KStr ''machineName'') \<noteq> None
          \<and> map_of (out ! i) (KStr ''resourceName'') \<noteq> None
          \<and> map_of (out ! i) (KStr ''equipmentDisplay'') \<noteq> None
          \<and> (\<not> truthy (dget d ''jobName'')
                \<or> (\<exists>k. hkey_of (dget d ''jobName'') = Inr k \<and> map_of job_mp k = None)
              \<longrightarrow> map_of (out ! i) (KStr ''workcenterName'') = Some JNull
                \<and> map_of (out ! i) (KStr ''machineName'') = Some JNull
                \<and> map_of (out ! i) (KStr ''resourceName'') = Some JNull
                \<and> map_of (out ! i) (KStr ''equipmentDisplay'') = Some (JStr '''')))"
proof (intro conjI allI impI)
  show "length out = length heads"
    using attach_equipment_to_heads_nth [OF assms] by simp
next
  fix i assume i: "i < length heads"
  with attach_equipment_to_heads_nth [OF assms]
  have "attach_one job_mp (heads ! i) = Inr (out ! i)" by simp
  from attach_one_result [OF this] obtain d eq display where d: "py_dict (heads ! i) = Inr d"
    and eq: "lookup_equipment job_mp (dget d ''jobName'') = Inr eq"
    and display: "py_join '' / '' (filter truthy
           [py_or (dget eq ''workcenterName'') (JStr ''''),
            py_or (dget eq ''machineName'') (JStr ''''),
            py_or (dget eq ''resourceName'') (JStr '''')]) = Inr display"
    and out: "map_of (out ! i) = (map_of d)
          (KStr ''workcenterName'' \<mapsto> dget eq ''workcenterName'',
           KStr ''machineName'' \<mapsto> dget eq ''machineName'',
           KStr ''resourceName'' \<mapsto> dget eq ''resourceName'',
           KStr ''equipmentDisplay'' \<mapsto> JStr display)"
    by blast
  have unmatched: "dget eq k = JNull \<and> display = []"
    if "\<not> truthy (dget d ''jobName'')
          \<or> (\<exists>k. hkey_of (dget d ''jobName'') = Inr k \<and> map_of job_mp k = None)" for k
  proof -
    from lookup_equipment_unmatched [OF eq that] have "eq = []" .
    with display show ?thesis by (simp add: dget_def py_or_def py_join_def)
  qed
  show "\<exists>d. py_dict (heads ! i) = Inr d
          \<and> (\<forall>k. k \<notin> {KStr ''workcenterName'', KStr ''machineName'', KStr ''resourceName'',
                       KStr ''equipmentDisplay''}
                 \<longrightarrow> map_of (out ! i) k = map_of d k)
          \<and> map_of (out ! i) (KStr ''workcenterName'') \<noteq> None
          \<and> map_of (out ! i) (KStr ''machineName'') \<noteq> None
          \<and> map_of (out ! i) (KStr ''resourceName'') \<noteq> None
          \<and> map_of (out ! i) (KStr ''equipmentDisplay'') \<noteq> None
          \<and> (\<not> truthy (dget d ''jobName'')
                \<or> (\<exists>k. hkey_of (dget d ''jobName'') = Inr k \<and> map_of job_mp k = None)
              \<longrightarrow> map_of (out ! i) (KStr ''workcenterName'') = Some JNull
                \<and> map_of (out ! i) (KStr ''machineName'') = Some JNull
                \<and> map_of (out ! i) (KStr ''resourceName'') = Some JNull
                \<and> map_of (out ! i) (KStr ''equipmentDisplay'') = Some (JStr ''''))"
    using d unmatched by (intro exI [of _ d]) (simp add: out)
qed

theorem attach_keeps_every_record_witness:
  "attach_equipment_to_heads two_heads index_J1 = Inr two_heads_attached
   \<and> length two_heads_attached = length two_heads
   \<and> map_of (two_heads_attached ! 1) (KStr ''jobName'') = Some (JStr ''J2'')
   \<and> map_of index_J1 (KStr ''J2'') = None
   \<and> map_of (two_heads_attached ! 1) (KStr ''workcenterName'') = Some JNull
   \<and> map_of (two_heads_attached ! 1) (KStr ''equipmentDisplay'') = Some (JStr '''')"
proof -
  have run: "attach_equipment_to_heads two_heads index_J1 = Inr two_heads_attached"
    by (simp add: two_heads_def index_J1_def two_heads_attached_def attach_one_def
        lookup_equipment_def dget_def py_or_def py_join_def Let_def)
  from attach_keeps_every_record [OF run] run show ?thesis
    by (simp add: two_heads_def index_J1_def two_heads_attached_def)
qed

text \<open>
  Claim C3 as the specification words it fails: a record whose job name the index does
  not know gets \<^verbatim>\<open>workcenterName\<close>, \<^verbatim>\<open>machineName\<close> and \<^verbatim>\<open>resourceName\<close> with the value
  null, not with an empty value.
\<close>

theorem attach_unmatched_fields_are_null:
  "attach_equipment_to_heads [JObj [(''jobName'', JStr ''J2'')]] [] =
     Inr [ [(KStr ''jobName'', JStr ''J2''), (KStr ''workcenterName'', JNull),
           (KStr ''machineName'', JNull), (KStr ''resourceName'', JNull),
           (KStr ''equipmentDisplay'', JStr '''')]]
   \<and> map_of [(KStr ''jobName'', JStr ''J2''), (KStr ''workcenterName'', JNull),
           (KStr ''machineName'', JNull), (KStr ''resourceName'', JNull),
           (KStr ''equipmentDisplay'', JStr '''')] (KStr ''workcenterName'') = Some JNull
   \<and> Some JNull \<noteq> Some (JStr '''')"
  by (simp add: attach_one_def lookup_equipment_def dget_def py_or_def py_join_def Let_def)

subsection \<open>The item-name filter\<close>






lemma strip_Nil [simp]: "strip [] = []"
  by (simp add: strip_def)





subsection \<open>The rows of the sheet\<close>

lemma result_rows_shape:
  "result_rows code name wc items = Inr out \<Longrightarrow>
     \<exists>d. items = map JObj d \<and> out = map (result_row code name wc) d"
proof (induction code name wc items arbitrary: out rule: result_rows.induct)
  case (1 code name wc)
  then show ?case by simp
next
  case (2 code name wc r rs)
  from "2.prems" obtain rest where rest: "result_rows code name wc rs = Inr rest"
    "out = result_row code name wc r # rest"
    by (auto simp add: bindr_def split: sum.splits)
  from "2.IH" [OF rest(1)] obtain d where "rs = map JObj d" "rest = map (result_row code name wc) d"
    by blast
  with rest have "JObj r # rs = map JObj (r # d) \<and> out = map (result_row code name wc) (r # d)"
    by simp
  then show ?case by (rule exI)
qed simp_all

lemma truthy_py_iter: "truthy x \<Longrightarrow> py_iter x = Inr items \<Longrightarrow> items \<noteq> []"
  by (cases x) auto

lemma group_rows_shape:
  assumes "group_rows ios line_list i h = Inr rows"
  shows "\<exists>wc d. workcenter_from_head h = Inr wc
     \<and> detail_items ios line_list i h = Inr (map JObj d)
     \<and> rows = item_row (dget h ''itemCode'') (dget h ''itemName'') wc
          # (if d = [] then [no_result_row (dget h ''itemCode'') (dget h ''itemName'') wc]
             else map (result_row (dget h ''itemCode'') (dget h ''itemName'') wc) d)"
proof -
  from assms obtain wc mid resp_l rows_l where wc: "workcenter_from_head h = Inr wc"
    and mid: "inspection_id ios h = Inr mid"
    and resp: "line_list i mid = Some resp_l"
    and rows_l: "QF3_extract_list resp_l = Inr rows_l"
    by (auto simp add: group_rows_def Let_def bindr_def split: sum.splits option.splits)
  show ?thesis
  proof (cases "truthy rows_l")
    case False
    with assms wc mid resp rows_l
    have "rows = [item_row (dget h ''itemCode'') (dget h ''itemName'') wc,
                  no_result_row (dget h ''itemCode'') (dget h ''itemName'') wc]"
      by (simp add: group_rows_def Let_def)
    moreover from False mid resp rows_l
    have "detail_items ios line_list i h = Inr (map JObj [])"
      by (simp add: detail_items_def)
    ultimately show ?thesis using wc by (intro exI [of _ wc] exI [of _ "[]"]) simp
  next
    case True
    with assms wc mid resp rows_l obtain items out where items: "py_iter rows_l = Inr items"
      and out: "result_rows (dget h ''itemCode'') (dget h ''itemName'') wc items = Inr out"
      and rows: "rows = item_row (dget h ''itemCode'') (dget h ''itemName'') wc # out"
      by (auto simp add: group_rows_def Let_def bindr_def split: sum.splits)
    from result_rows_shape [OF out] obtain d where d: "items = map JObj d"
      "out = map (result_row (dget h ''itemCode'') (dget h ''itemName'') wc) d"
      by blast
    from truthy_py_iter [OF True items] d have "d \<noteq> []" by auto
    moreover from True mid resp rows_l items d
    have "detail_items ios line_list i h = Inr (map JObj d)"
      by (simp add: detail_items_def)
    ultimately show ?thesis using wc rows d by (intro exI [of _ wc] exI [of _ d]) simp
  qed
qed

lemma sheet_loop_shape:
  "sheet_loop ios line_list i heads = Inr rows \<Longrightarrow>
     \<exists>groups details. length groups = length heads \<and> length details = length heads
       \<and> rows = concat groups
       \<and> (\<forall>j < length heads. \<exists>wc.
             workcenter_from_head (heads ! j) = Inr wc
             \<and> detail_items ios line_list (i + j) (heads ! j) = Inr (map JObj (details ! j))
             \<and> groups ! j =
                 item_row (dget (heads ! j) ''itemCode'') (dget (heads ! j) ''itemName'') wc
                 # (if details ! j = []
                    then [no_result_row (dget (heads ! j) ''itemCode'')
                            (dget (heads ! j) ''itemName'') wc]
                    else map (result_row (dget (heads ! j) ''itemCode'')
                            (dget (heads ! j) ''itemName'') wc) (details ! j)))
       \<and> length rows = length heads + sum_list (map (\<lambda>d. max (length d) 1) details)"
proof (induction heads arbitrary: i rows)
  case Nil
  then show ?case by simp
next
  case (Cons h heads)
  from Cons.prems obtain g rest where g: "group_rows ios line_list i h = Inr g"
    and rest: "sheet_loop ios line_list (i + 1) heads = Inr rest"
    and rows: "rows = g @ rest"
    by (auto simp add: bindr_def split: sum.splits)
  from group_rows_shape [OF g] obtain wc d where wc: "workcenter_from_head h = Inr wc"
    and d: "detail_items ios line_list i h = Inr (map JObj d)"
    and g_eq: "g = item_row (dget h ''itemCode'') (dget h ''itemName'') wc
          # (if d = [] then [no_result_row (dget h ''itemCode'') (dget h ''itemName'') wc]
             else map (result_row (dget h ''itemCode'') (dget h ''itemName'') wc) d)"
    by blast
  from Cons.IH [OF rest] obtain groups details where
    len: "length groups = length heads" "length details = length heads"
    and rest_eq: "rest = concat groups"
    and each: "\<forall>j < length heads. \<exists>wc.
             workcenter_from_head (heads ! j) = Inr wc
             \<and> detail_items ios line_list (i + 1 + j) (heads ! j) = Inr (map JObj (details ! j))
             \<and> groups ! j =
                 item_row (dget (heads ! j) ''itemCode'') (dget (heads ! j) ''itemName'') wc
                 # (if details ! j = []
                    then [no_result_row (dget (heads ! j) ''itemCode'')
                            (dget (heads ! j) ''itemName'') wc]
                    else map (result_row (dget (heads ! j) ''itemCode'')
                            (dget (heads ! j) ''itemName'') wc) (details ! j))"
    and count: "length rest = length heads + sum_list (map (\<lambda>d. max (length d) 1) details)"
    by blast
  have g_len: "length g = 1 + max (length d) 1"
    by (cases d) (simp_all add: g_eq)
  show ?case
  proof (intro exI [of _ "g # groups"] exI [of _ "d # details"] conjI allI impI)
    fix j assume j: "j < length (h # heads)"
    show "\<exists>wc. workcenter_from_head ((h # heads) ! j) = Inr wc
             \<and> detail_items ios line_list (i + j) ((h # heads) ! j)
                 = Inr (map JObj ((d # details) ! j))
             \<and> (g # groups) ! j =
                 item_row (dget ((h # heads) ! j) ''itemCode'')
                   (dget ((h # heads) ! j) ''itemName'') wc
                 # (if (d # details) ! j = []
                    then [no_result_row (dget ((h # heads) ! j) ''itemCode'')
                            (dget ((h # heads) ! j) ''itemName'') wc]
                    else map (result_row (dget ((h # heads) ! j) ''itemCode'')
                            (dget ((h # heads) ! j) ''itemName'') wc) ((d # details) ! j))"
    proof (cases j)
      case 0
      with wc d g_eq show ?thesis by (intro exI [of _ wc]) simp
    next
      case (Suc j')
      with j have "j' < length heads" by simp
      from each [rule_format, OF this] show ?thesis
        unfolding Suc by (simp split del: if_split cong: if_cong)
    qed
  qed (use len rest_eq rows count g_len in simp_all)
qed

text \<open>
  Claim C6. When \<^verbatim>\<open>_excel_one_sheet_item_then_results\<close> returns, the sheet is the row of
  column titles followed by one group of rows per head record, in order and with nothing
  between the groups. The group of the \<open>i\<close>-th record is its item row followed by one
  result row per item of its detail collection, in the collection's order, or by the
  single no-result row when the collection is empty. So for \<open>N\<close> records with \<open>d\<^sub>i\<close>
  detail items the sheet has \<open>N + \<Sum> max d\<^sub>i 1\<close> rows below the titles.
\<close>

theorem sheet_groups_and_row_count:
  assumes "excel_one_sheet_item_then_results ios heads2 line_list = Inr sheet"
  shows "\<exists>groups details. length groups = length heads2 \<and> length details = length heads2
       \<and> sheet = columns # concat groups
       \<and> (\<forall>j < length heads2. \<exists>wc.
             workcenter_from_head (heads2 ! j) = Inr wc
             \<and> detail_items ios line_list (1 + j) (heads2 ! j) = Inr (map JObj (details ! j))
             \<and> groups ! j =
                 item_row (dget (heads2 ! j) ''itemCode'') (dget (heads2 ! j) ''itemName'') wc
                 # (if details ! j = []
                    then [no_result_row (dget (heads2 ! j) ''itemCode'')
                            (dget (heads2 ! j) ''itemName'') wc]
                    else map (result_row (dget (heads2 ! j) ''itemCode'')
                            (dget (heads2 ! j) ''itemName'') wc) (details ! j)))
       \<and> length (tl sheet) = length heads2 + sum_list (map (\<lambda>d. max (length d) 1) details)"
proof -
  from assms obtain rows where rows: "sheet_loop ios line_list 1 heads2 = Inr rows"
    and sheet: "sheet = columns # rows"
    by (auto simp add: excel_one_sheet_item_then_results_def bindr_def split: sum.splits)
  from sheet_loop_shape [OF rows] sheet show ?thesis by simp
qed

theorem sheet_groups_and_row_count_witness:
  "excel_one_sheet_item_then_results no_int two_heads_attached lines_of_11 =
     Inr [columns,
       item_row JNull (JStr ''Widget-A'') ''WC1'',
       result_row JNull (JStr ''Widget-A'') ''WC1''
         [(''level3ClassName'', JStr ''width''), (''checkValue'', JInt 5)],
       result_row JNull (JStr ''Widget-A'') ''WC1''
         [(''level3ClassName'', JStr ''depth''), (''checkValue'', JInt 7)],
       item_row JNull (JStr ''Widget-B'') '''',
       no_result_row JNull (JStr ''Widget-B'') '''']
   \<and> (\<exists>details. length details = 2
         \<and> detail_items no_int lines_of_11 1 (two_heads_attached ! 0) = Inr (map JObj (details ! 0))
         \<and> detail_items no_int lines_of_11 2 (two_heads_attached ! 1) = Inr (map JObj (details ! 1))
         \<and> (5 :: nat) = 2 + sum_list (map (\<lambda>d. max (length d) 1) details))"
proof -
  have run: "excel_one_sheet_item_then_results no_int two_heads_attached lines_of_11 =
     Inr [columns,
       item_row JNull (JStr ''Widget-A'') ''WC1'',
       result_row JNull (JStr ''Widget-A'') ''WC1''
         [(''level3ClassName'', JStr ''width''), (''checkValue'', JInt 5)],
       result_row JNull (JStr ''Widget-A'') ''WC1''
         [(''level3ClassName'', JStr ''depth''), (''checkValue'', JInt 7)],
       item_row JNull (JStr ''Widget-B'') '''',
       no_result_row JNull (JStr ''Widget-B'') '''']"
    by (simp add: excel_one_sheet_item_then_results_def group_rows_def two_heads_attached_def
        lines_of_11_def resp_of_rows_def workcenter_from_head_def py_strip_def strip_def
        isspace_def dget_def py_or_def inspection_id_def QF3_extract_list_def Let_def)
  from sheet_groups_and_row_count [OF run] obtain groups details where
    len: "length details = length two_heads_attached"
    and each: "\<forall>j < length two_heads_attached. \<exists>wc.
             workcenter_from_head (two_heads_attached ! j) = Inr wc
             \<and> detail_items no_int lines_of_11 (1 + j) (two_heads_attached ! j)
                 = Inr (map JObj (details ! j))
             \<and> groups ! j =
                 item_row (dget (two_heads_attached ! j) ''itemCode'')
                   (dget (two_heads_attached ! j) ''itemName'') wc
                 # (if details ! j = []
                    then [no_result_row (dget (two_heads_attached ! j) ''itemCode'')
                            (dget (two_heads_attached ! j) ''itemName'') wc]
                    else map (result_row (dget (two_heads_attached ! j) ''itemCode'')
                            (dget (two_heads_attached ! j) ''itemName'') wc) (details ! j))"
    and count: "length (tl [columns,
       item_row JNull (JStr ''Widget-A'') ''WC1'',
       result_row JNull (JStr ''Widget-A'') ''WC1''
         [(''level3ClassName'', JStr ''width''), (''checkValue'', JInt 5)],
       result_row JNull (JStr ''Widget-A'') ''WC1''
         [(''level3ClassName'', JStr ''depth''), (''checkValue'', JInt 7)],
       item_row JNull (JStr ''Widget-B'') '''',
       no_result_row JNull (JStr ''Widget-B'') '''']) = length two_heads_attached
          + sum_list (map (\<lambda>d. max (length d) 1) details)"
    by blast
  have two: "length two_heads_attached = 2" by (simp add: two_heads_attached_def)
  have in_range: "0 < length two_heads_attached" "1 < length two_heads_attached"
    using two by simp_all
  from each [rule_format, OF in_range(1)]
  have d0: "detail_items no_int lines_of_11 1 (two_heads_attached ! 0) = Inr (map JObj (details ! 0))"
    by auto
  from each [rule_format, OF in_range(2)]
  have d1: "detail_items no_int lines_of_11 2 (two_heads_attached ! 1) = Inr (map JObj (details ! 1))"
    by (auto simp add: numeral_2_eq_2)
  from d0 d1 len two count run show ?thesis by (intro conjI exI [of _ details]) simp_all
qed

subsection \<open>The download handler\<close>

lemma bindr_eq_Inl:
  "bindr m f = Inl e \<longleftrightarrow> m = Inl e \<or> (\<exists>x. m = Inr x \<and> f x = Inl e)"
  by (cases m) simp_all

lemma py_get_no_RuntimeError: "py_get x k d \<noteq> Inl RuntimeError"
  by (cases x) simp_all

lemma py_iter_no_RuntimeError: "py_iter x \<noteq> Inl RuntimeError"
  by (cases x) simp_all

lemma py_int_no_RuntimeError: "py_int ios x \<noteq> Inl RuntimeError"
  by (cases x) (simp_all split: option.splits)

lemma str_of_no_RuntimeError: "str_of x \<noteq> Inl RuntimeError"
  by (cases x) simp_all

lemma QF3_extract_list_no_RuntimeError: "QF3_extract_list resp \<noteq> Inl RuntimeError"
  by (simp add: QF3_extract_list_def bindr_eq_Inl py_get_no_RuntimeError)

lemma py_strip_no_RuntimeError: "py_strip x \<noteq> Inl RuntimeError"
  by (simp add: py_strip_def bindr_eq_Inl str_of_no_RuntimeError)

lemma workcenter_from_head_no_RuntimeError: "workcenter_from_head h \<noteq> Inl RuntimeError"
  by (auto simp add: workcenter_from_head_def bindr_eq_Inl py_strip_no_RuntimeError
      split: if_splits)

lemma inspection_id_no_RuntimeError: "inspection_id ios h \<noteq> Inl RuntimeError"
  by (simp add: inspection_id_def py_int_no_RuntimeError split: option.splits)

lemma result_rows_no_RuntimeError: "result_rows code name wc items \<noteq> Inl RuntimeError"
  by (induction code name wc items rule: result_rows.induct)
     (simp_all add: bindr_eq_Inl)

lemma group_rows_no_RuntimeError: "group_rows ios line_list i h \<noteq> Inl RuntimeError"
  by (auto simp add: group_rows_def Let_def bindr_eq_Inl workcenter_from_head_no_RuntimeError
      inspection_id_no_RuntimeError QF3_extract_list_no_RuntimeError py_iter_no_RuntimeError
      result_rows_no_RuntimeError split: option.splits if_splits)

lemma sheet_loop_no_RuntimeError: "sheet_loop ios line_list i heads \<noteq> Inl RuntimeError"
  by (induction heads arbitrary: i)
     (simp_all add: bindr_eq_Inl group_rows_no_RuntimeError)

lemma excel_no_RuntimeError:
  "excel_one_sheet_item_then_results ios heads2 line_list \<noteq> Inl RuntimeError"
  by (simp add: excel_one_sheet_item_then_results_def bindr_eq_Inl sheet_loop_no_RuntimeError)

text \<open>
  Claim C9. Let both fetches, the enrichment and the filter succeed, and let \<open>heads2\<close> be
  what the filter leaves. If \<open>heads2\<close> is empty the handler raises its \<^verbatim>\<open>RuntimeError\<close>
  and no sheet is produced. If \<open>heads2\<close> is not empty the handler is the sheet function
  on \<open>heads2\<close>, which never raises \<^verbatim>\<open>RuntimeError\<close>.
\<close>

theorem download_of_nothing_raises:
  assumes "snd (build_job_equipment_map ios joborder_list 999) = Inr job_mp"
    and "snd (fetch_all_heads ios head_list 999) = Inr heads"
    and "attach_equipment_to_heads heads job_mp = Inr attached"
    and "filter_heads_by_item_name attached item_name_q = Inr heads2"
  shows "(heads2 = [] \<longrightarrow>
           download_handler ios joborder_list head_list line_list item_name_q = Inl RuntimeError)
       \<and> (heads2 \<noteq> [] \<longrightarrow>
           download_handler ios joborder_list head_list line_list item_name_q
             = excel_one_sheet_item_then_results ios heads2 line_list
           \<and> download_handler ios joborder_list head_list line_list item_name_q
             \<noteq> Inl RuntimeError)"
  using assms excel_no_RuntimeError [of ios heads2 line_list]
  by (simp add: download_handler_def)

theorem download_of_nothing_raises_witness:
  "download_handler no_int jobs_J1 heads_two lines_of_11 ''Gadget'' = Inl RuntimeError
   \<and> two_heads_attached \<noteq> []
   \<and> download_handler no_int jobs_J1 heads_two lines_of_11 ''Widget''
       = excel_one_sheet_item_then_results no_int two_heads_attached lines_of_11
   \<and> download_handler no_int jobs_J1 heads_two lines_of_11 ''Widget'' \<noteq> Inl RuntimeError"
proof -
  have jobs: "snd (build_job_equipment_map no_int jobs_J1 999) = Inr index_J1"
    by (simp add: build_job_equipment_map_def while_pages.simps [of _ _ _ 1]
        build_job_equipment_map_body_def jobs_J1_def resp_of_rows_def job_row_def
        QF3_extract_list_def QF3_extract_total_def py_or_def jget_def equipment_of_def
        index_J1_def)
  have heads: "snd (fetch_all_heads no_int heads_two 999) = Inr two_heads"
    by (simp add: fetch_all_heads_def while_pages.simps [of _ _ _ 1] fetch_all_heads_body_def
        heads_two_def resp_of_rows_def two_heads_def QF3_extract_list_def
        QF3_extract_total_def py_or_def)
  have attached: "attach_equipment_to_heads two_heads index_J1 = Inr two_heads_attached"
    by (simp add: two_heads_def index_J1_def two_heads_attached_def attach_one_def
        lookup_equipment_def dget_def py_or_def py_join_def Let_def)
  have gadget: "filter_heads_by_item_name two_heads_attached ''Gadget'' = Inr []"
    by (simp add: filter_heads_by_item_name_def parse_and_tokens_def strip_def isspace_def
        two_heads_attached_def dget_def py_or_def lower_def lower_char_def)
  have widget: "filter_heads_by_item_name two_heads_attached ''Widget'' = Inr two_heads_attached"
    by (simp add: filter_heads_by_item_name_def parse_and_tokens_def strip_def isspace_def
        two_heads_attached_def dget_def py_or_def lower_def lower_char_def)
  have some: "two_heads_attached \<noteq> []"
    by (simp add: two_heads_attached_def)
  from download_of_nothing_raises [OF jobs heads attached gadget, of lines_of_11]
    download_of_nothing_raises [OF jobs heads attached widget, of lines_of_11] some
  show ?thesis by blast
qed

subsection \<open>What a full fetch returns\<close>













subsection \<open>Stopping at the total\<close>

lemma fetch_all_heads_body_Continue:
  "fetch_all_heads_body ios resp all_rows = Continue all_rows' \<Longrightarrow>
     \<exists>tot. QF3_extract_total ios resp = Inr tot \<and> int (length all_rows') < tot"
  by (auto simp add: fetch_all_heads_body_def split: sum.splits if_splits)

lemma list_items_all_body_Continue:
  "list_items_all_body ios limit resp s = Continue (Some t, all_rows') \<Longrightarrow>
     int (length all_rows') < t"
  by (auto simp add: list_items_all_body_def Let_def split: sum.splits if_splits option.splits)

text \<open>
  Claim C2 at \<^verbatim>\<open>build_job_equipment_map\<close>. Page 1 of \<open>jobs_same_name\<close> reports the total 2
  and holds two rows, so after page 1 the rows fetched have reached the total. The loop
  compares the total with \<^verbatim>\<open>len(mp)\<close>, the number of job names indexed so far, which is 1:
  it requests page 2. On the same pages \<^verbatim>\<open>fetch_all_heads\<close>, which compares the total
  with the number of rows, stops after page 1.
\<close>

theorem job_map_requests_past_total:
  "jobs_same_name 1 = Some (resp_of_rows
       [JObj [(''cnt'', JInt 2), (''jobName'', JStr ''J1''), (''workcenterName'', JStr ''A'')],
        JObj [(''cnt'', JInt 2), (''jobName'', JStr ''J1''), (''workcenterName'', JStr ''B'')]])
   \<and> QF3_extract_total no_int (resp_of_rows
       [JObj [(''cnt'', JInt 2), (''jobName'', JStr ''J1''), (''workcenterName'', JStr ''A'')],
        JObj [(''cnt'', JInt 2), (''jobName'', JStr ''J1''), (''workcenterName'', JStr ''B'')]])
       = Inr 2
   \<and> build_job_equipment_map no_int jobs_same_name 999 =
       ([1, 2],
        Inr [(KStr ''J1'',
              [(KStr ''workcenterName'', JStr ''B''), (KStr ''machineName'', JNull),
               (KStr ''resourceName'', JNull)])])
   \<and> fst (fetch_all_heads no_int jobs_same_name 999) = [1]"
  by (simp add: build_job_equipment_map_def fetch_all_heads_def while_pages.simps [of _ _ _ 1]
      while_pages.simps [of _ _ _ 2] while_pages.simps [of _ _ _ "1 + 1"]
      build_job_equipment_map_body_def fetch_all_heads_body_def jobs_same_name_def
      resp_of_rows_def QF3_extract_list_def QF3_extract_total_def py_or_def jget_def
      equipment_of_def)

subsection \<open>A fetch returns what its pages hold\<close>

lemma while_pages_invariant:
  "(\<And>ps p resp s1 s2. P ps s1 \<Longrightarrow> request p = Some resp \<Longrightarrow>
      body resp s1 = Break s2 \<or> body resp s1 = Continue s2 \<Longrightarrow> P (ps @ [p]) s2) \<Longrightarrow>
   while_pages body request max_pages page s reqs = (reqs', Inr s') \<Longrightarrow> P seen s \<Longrightarrow>
     P (seen @ drop (length reqs) reqs') s'"
proof (induction body request max_pages page s reqs arbitrary: seen
    rule: while_pages.induct)
  case (1 body request max_pages page s reqs)
  note step = "1.prems"(1) and run = "1.prems"(2) and seen = "1.prems"(3)
  show ?case
  proof (cases "page \<le> max_pages")
    case False
    with run seen show ?thesis by (simp add: while_pages.simps)
  next
    case le: True
    show ?thesis
    proof (cases "request page")
      case None
      with le run show ?thesis by (simp add: while_pages.simps)
    next
      case (Some resp)
      show ?thesis
      proof (cases "body resp s")
        case (Raise e)
        with le Some run show ?thesis by (simp add: while_pages.simps)
      next
        case (Break s2)
        with le Some run have "reqs' = reqs @ [page]" "s' = s2"
          by (simp_all add: while_pages.simps)
        with step [OF seen Some] Break show ?thesis by simp
      next
        case (Continue s2)
        with le Some run
        have rec: "while_pages body request max_pages (page + 1) s2 (reqs @ [page]) = (reqs', Inr s')"
          by (simp add: while_pages.simps)
        from while_pages_requests [of "page + 1" max_pages body request s2 "reqs @ [page]"] rec
        obtain q where "reqs' = (reqs @ [page]) @ [page + 1..q]" by auto
        then have drop: "drop (length reqs) reqs' = page # drop (length (reqs @ [page])) reqs'"
          by simp
        from step [OF seen Some] Continue have "P (seen @ [page]) s2" by simp
        from "1.IH" [OF le Some Continue step rec this] show ?thesis by (simp add: drop)
      qed
    qed
  qed
qed

lemma fetch_all_heads_body_items:
  assumes "request p = Some resp"
    and "fetch_all_heads_body ios resp acc = Break acc' \<or> fetch_all_heads_body ios resp acc = Continue acc'"
  shows "acc' = acc @ page_items request p"
  using assms
  by (auto simp add: fetch_all_heads_body_def page_items_def split: sum.splits if_splits)

lemma list_items_all_body_rows:
  assumes "request p = Some resp"
    and "list_items_all_body ios limit resp s = Break s' \<or> list_items_all_body ios limit resp s = Continue s'"
  shows "snd s' = snd s @ item_page_rows request p"
  using assms
  by (auto simp add: list_items_all_body_def item_page_rows_def Let_def
      split: sum.splits if_splits option.splits)

lemma build_job_equipment_map_body_index:
  assumes "request p = Some resp"
    and "build_job_equipment_map_body ios resp mp = Break mp'
      \<or> build_job_equipment_map_body ios resp mp = Continue mp'"
  shows "index_rows (page_items request p) mp = Inr mp'"
  using assms
  by (auto simp add: build_job_equipment_map_body_def page_items_def split: sum.splits if_splits)

text \<open>
  Whenever \<^verbatim>\<open>fetch_all_heads\<close> or \<^verbatim>\<open>list_items_all\<close> returns, the list returned is the
  concatenation, in page order, of the rows of exactly the pages it requested.
\<close>

theorem fetch_returns_requested_pages:
  "(snd (fetch_all_heads ios head_list max_pages) = Inr rows
      \<longrightarrow> rows = concat (map (page_items head_list)
                        (fst (fetch_all_heads ios head_list max_pages))))
   \<and> (snd (list_items_all ios list_items_page limit max_pages) = Inr rows'
      \<longrightarrow> rows' = concat (map (item_page_rows list_items_page)
                         (fst (list_items_all ios list_items_page limit max_pages))))"
proof (intro conjI impI)
  assume "snd (fetch_all_heads ios head_list max_pages) = Inr rows"
  then have run: "while_pages (fetch_all_heads_body ios) head_list max_pages 1 [] []
      = (fst (fetch_all_heads ios head_list max_pages), Inr rows)"
    by (simp add: fetch_all_heads_def prod_eq_iff)
  have "rows = concat (map (page_items head_list)
      ([] @ drop (length ([] :: int list)) (fst (fetch_all_heads ios head_list max_pages))))"
    by (rule while_pages_invariant
          [where P = "\<lambda>ps acc. acc = concat (map (page_items head_list) ps)", OF _ run])
       (auto dest: fetch_all_heads_body_items)
  then show "rows = concat (map (page_items head_list)
      (fst (fetch_all_heads ios head_list max_pages)))"
    by simp
next
  assume "snd (list_items_all ios list_items_page limit max_pages) = Inr rows'"
  then obtain t where run: "while_pages (list_items_all_body ios limit) list_items_page max_pages 1
      (None, []) [] = (fst (list_items_all ios list_items_page limit max_pages), Inr (t, rows'))"
    by (auto simp add: list_items_all_def split: prod.splits sum.splits)
  have "snd (t, rows') = concat (map (item_page_rows list_items_page)
      ([] @ drop (length ([] :: int list))
         (fst (list_items_all ios list_items_page limit max_pages))))"
    by (rule while_pages_invariant
          [where P = "\<lambda>ps s. snd s = concat (map (item_page_rows list_items_page) ps)", OF _ run])
       (auto dest: list_items_all_body_rows)
  then show "rows' = concat (map (item_page_rows list_items_page)
      (fst (list_items_all ios list_items_page limit max_pages)))"
    by simp
qed

theorem fetch_returns_requested_pages_witness:
  "fetch_all_heads no_int two_pages_no_cnt 999 = ([1], Inr [JObj [(''jobName'', JStr ''J1'')]])
   \<and> [JObj [(''jobName'', JStr ''J1'')]] = concat (map (page_items two_pages_no_cnt) [1])
   \<and> list_items_all no_int items_in_two_pages 2 999 = ([1, 2], Inr three_rows)
   \<and> three_rows = concat (map (item_page_rows items_in_two_pages) [1, 2])"
proof -
  have heads: "fetch_all_heads no_int two_pages_no_cnt 999
      = ([1], Inr [JObj [(''jobName'', JStr ''J1'')]])"
    by (simp add: fetch_all_heads_def while_pages.simps [of _ _ _ 1] fetch_all_heads_body_def
        two_pages_no_cnt_def resp_of_rows_def QF3_extract_list_def QF3_extract_total_def
        py_or_def)
  have items: "list_items_all no_int items_in_two_pages 2 999 = ([1, 2], Inr three_rows)"
    by (simp add: list_items_all_def while_pages.simps [of _ _ _ 1]
        while_pages.simps [of _ _ _ 2] while_pages.simps [of _ _ _ "1 + 1"]
        list_items_all_body_def items_in_two_pages_def items_resp_def page_of_three_def
        three_rows_def jget_def row_paths_def Let_def)
  from fetch_returns_requested_pages [of no_int two_pages_no_cnt 999
      "[JObj [(''jobName'', JStr ''J1'')]]" items_in_two_pages 2 three_rows] heads items
  show ?thesis by simp
qed

text \<open>
  Whenever \<^verbatim>\<open>build_job_equipment_map\<close> returns, the index returned is the one the inner
  loop builds from the rows of the requested pages taken as one collection, in page
  order: a later page overwrites an earlier one.
\<close>

theorem job_map_indexes_requested_pages:
  assumes "snd (build_job_equipment_map ios joborder_list max_pages) = Inr mp"
  shows "index_rows (concat (map (page_items joborder_list)
           (fst (build_job_equipment_map ios joborder_list max_pages)))) [] = Inr mp"
proof -
  from assms have run: "while_pages (build_job_equipment_map_body ios) joborder_list max_pages 1
      [] [] = (fst (build_job_equipment_map ios joborder_list max_pages), Inr mp)"
    by (simp add: build_job_equipment_map_def prod_eq_iff)
  have "index_rows (concat (map (page_items joborder_list)
      ([] @ drop (length ([] :: int list))
         (fst (build_job_equipment_map ios joborder_list max_pages))))) [] = Inr mp"
    by (rule while_pages_invariant
          [where P = "\<lambda>ps m. index_rows (concat (map (page_items joborder_list) ps)) [] = Inr m",
           OF _ run])
       (auto simp add: index_rows_append dest: build_job_equipment_map_body_index)
  then show ?thesis by simp
qed

theorem job_map_indexes_requested_pages_witness:
  "build_job_equipment_map no_int jobs_same_name 999 =
       ([1, 2],
        Inr [(KStr ''J1'',
              [(KStr ''workcenterName'', JStr ''B''), (KStr ''machineName'', JNull),
               (KStr ''resourceName'', JNull)])])
   \<and> index_rows (concat (map (page_items jobs_same_name) [1, 2])) [] =
        Inr [(KStr ''J1'',
              [(KStr ''workcenterName'', JStr ''B''), (KStr ''machineName'', JNull),
               (KStr ''resourceName'', JNull)])]"
proof -
  have run: "build_job_equipment_map no_int jobs_same_name 999 =
       ([1, 2],
        Inr [(KStr ''J1'',
              [(KStr ''workcenterName'', JStr ''B''), (KStr ''machineName'', JNull),
               (KStr ''resourceName'', JNull)])])"
    by (simp add: build_job_equipment_map_def while_pages.simps [of _ _ _ 1]
        while_pages.simps [of _ _ _ 2] while_pages.simps [of _ _ _ "1 + 1"]
        build_job_equipment_map_body_def jobs_same_name_def resp_of_rows_def
        QF3_extract_list_def QF3_extract_total_def py_or_def jget_def equipment_of_def)
  from job_map_indexes_requested_pages [of no_int jobs_same_name 999] run
  show ?thesis by simp
qed

subsection \<open>When an iteration goes on to the next page\<close>

lemma build_job_equipment_map_body_Continue:
  "build_job_equipment_map_body ios resp mp = Continue mp' \<Longrightarrow>
     \<exists>tot. QF3_extract_total ios resp = Inr tot \<and> int (length mp') < tot"
  by (auto simp add: build_job_equipment_map_body_def split: sum.splits if_splits)

text \<open>
  An iteration of \<^verbatim>\<open>fetch_all_heads\<close> or of \<^verbatim>\<open>list_items_all\<close> goes on to the next page
  only while the rows accumulated are fewer than the total: the loop stops as soon as
  they reach it. An iteration of \<^verbatim>\<open>build_job_equipment_map\<close> goes on only while the
  entries of the index are fewer than the total.
\<close>

theorem next_page_only_below_total:
  "(fetch_all_heads_body ios resp all_rows = Continue all_rows'
      \<longrightarrow> (\<exists>tot. QF3_extract_total ios resp = Inr tot \<and> int (length all_rows') < tot))
   \<and> (list_items_all_body ios limit resp s = Continue (Some t, rows')
      \<longrightarrow> int (length rows') < t)
   \<and> (build_job_equipment_map_body ios resp mp = Continue mp'
      \<longrightarrow> (\<exists>tot. QF3_extract_total ios resp = Inr tot \<and> int (length mp') < tot))"
  using fetch_all_heads_body_Continue [of ios resp all_rows all_rows']
    list_items_all_body_Continue [of ios limit resp s t rows']
    build_job_equipment_map_body_Continue [of ios resp mp mp']
  by blast

theorem next_page_only_below_total_witness:
  "fetch_all_heads_body no_int (heads_resp 1) [] = Continue (take 2 three_rows)
   \<and> QF3_extract_total no_int (heads_resp 1) = Inr 3
   \<and> int (length (take 2 three_rows)) < 3
   \<and> list_items_all_body no_int 2 (items_resp 1) (None, []) = Continue (Some 3, take 2 three_rows)
   \<and> build_job_equipment_map_body no_int (heads_resp 1) []
       = Continue [(KStr ''J1'', equipment_of [(''cnt'', JInt 3), (''jobName'', JStr ''J1'')]),
                   (KStr ''J2'', equipment_of [(''cnt'', JInt 3), (''jobName'', JStr ''J2'')])]"
proof -
  have heads: "fetch_all_heads_body no_int (heads_resp 1) [] = Continue (take 2 three_rows)"
    by (simp add: fetch_all_heads_body_def heads_resp_def page_of_three_def three_rows_def
        resp_of_rows_def QF3_extract_list_def QF3_extract_total_def py_or_def)
  have items: "list_items_all_body no_int 2 (items_resp 1) (None, [])
      = Continue (Some 3, take 2 three_rows)"
    by (simp add: list_items_all_body_def items_resp_def page_of_three_def three_rows_def
        jget_def row_paths_def Let_def)
  have jobs: "build_job_equipment_map_body no_int (heads_resp 1) []
       = Continue [(KStr ''J1'', equipment_of [(''cnt'', JInt 3), (''jobName'', JStr ''J1'')]),
                   (KStr ''J2'', equipment_of [(''cnt'', JInt 3), (''jobName'', JStr ''J2'')])]"
    by (simp add: build_job_equipment_map_body_def heads_resp_def page_of_three_def
        three_rows_def resp_of_rows_def QF3_extract_list_def QF3_extract_total_def py_or_def
        jget_def)
  have total: "QF3_extract_total no_int (heads_resp 1) = Inr 3"
    by (simp add: heads_resp_def page_of_three_def three_rows_def resp_of_rows_def
        QF3_extract_list_def QF3_extract_total_def py_or_def)
  from next_page_only_below_total [of no_int "heads_resp 1" "[]" "take 2 three_rows"
      2 "(None, [])" 3 "take 2 three_rows"] heads items jobs total
  show ?thesis by simp
qed

subsection \<open>One download, end to end\<close>

text \<open>
  The scenario of the specification: two head records, \<open>J1\<close> with item \<open>Widget-A\<close> and
  \<open>J2\<close> with item \<open>Widget-B\<close>; job-order metadata for \<open>J1\<close> only, with workcenter \<open>WC1\<close>;
  no inspection results for either; the query \<open>Widget\<close>. The sheet is the row of titles
  and four rows: for each head its item row, with workcenter \<open>WC1\<close> for the first and an
  empty one for the second, followed by one no-result row.
\<close>

theorem download_two_widgets:
  "download_handler no_int jobs_J1 heads_two no_lines ''Widget'' =
     Inr [columns,
          item_row JNull (JStr ''Widget-A'') ''WC1'',
          no_result_row JNull (JStr ''Widget-A'') ''WC1'',
          item_row JNull (JStr ''Widget-B'') '''',
          no_result_row JNull (JStr ''Widget-B'') '''']"
proof -
  have jobs: "snd (build_job_equipment_map no_int jobs_J1 999) = Inr index_J1"
    by (simp add: build_job_equipment_map_def while_pages.simps [of _ _ _ 1]
        build_job_equipment_map_body_def jobs_J1_def resp_of_rows_def job_row_def
        QF3_extract_list_def QF3_extract_total_def py_or_def jget_def equipment_of_def
        index_J1_def)
  have heads: "snd (fetch_all_heads no_int heads_two 999) = Inr two_heads"
    by (simp add: fetch_all_heads_def while_pages.simps [of _ _ _ 1] fetch_all_heads_body_def
        heads_two_def resp_of_rows_def two_heads_def QF3_extract_list_def
        QF3_extract_total_def py_or_def)
  have attached: "attach_equipment_to_heads two_heads index_J1 = Inr two_heads_attached"
    by (simp add: two_heads_def index_J1_def two_heads_attached_def attach_one_def
        lookup_equipment_def dget_def py_or_def py_join_def Let_def)
  have widget: "filter_heads_by_item_name two_heads_attached ''Widget'' = Inr two_heads_attached"
    by (simp add: filter_heads_by_item_name_def parse_and_tokens_def strip_def isspace_def
        two_heads_attached_def dget_def py_or_def lower_def lower_char_def)
  have some: "two_heads_attached \<noteq> []"
    by (simp add: two_heads_attached_def)
  have sheet: "excel_one_sheet_item_then_results no_int two_heads_attached no_lines =
     Inr [columns,
          item_row JNull (JStr ''Widget-A'') ''WC1'',
          no_result_row JNull (JStr ''Widget-A'') ''WC1'',
          item_row JNull (JStr ''Widget-B'') '''',
          no_result_row JNull (JStr ''Widget-B'') '''']"
    by (simp add: excel_one_sheet_item_then_results_def group_rows_def two_heads_attached_def
        no_lines_def resp_of_rows_def workcenter_from_head_def py_strip_def strip_def
        isspace_def dget_def py_or_def inspection_id_def QF3_extract_list_def Let_def)
  from jobs heads attached widget some sheet show ?thesis
    by (simp add: download_handler_def)
qed

subsection \<open>The display string\<close>

lemma strs_of_filter_truthy:
  "\<forall>x \<in> set xs. \<not> truthy x \<longrightarrow> x = JStr [] \<Longrightarrow> strs_of (filter truthy xs) = Inr ss \<Longrightarrow>
     \<exists>ts. xs = map JStr ts \<and> ss = filter (\<lambda>s. s \<noteq> []) ts"
proof (induction xs arbitrary: ss)
  case Nil
  then show ?case by simp
next
  case (Cons x xs)
  show ?case
  proof (cases "truthy x")
    case False
    with Cons.prems have x: "x = JStr []" and rest: "strs_of (filter truthy xs) = Inr ss"
      by simp_all
    from Cons.IH [OF _ rest] Cons.prems(1) obtain ts where "xs = map JStr ts"
      "ss = filter (\<lambda>s. s \<noteq> []) ts"
      by auto
    with x have "x # xs = map JStr ([] # ts) \<and> ss = filter (\<lambda>s. s \<noteq> []) ([] # ts)" by simp
    then show ?thesis by (rule exI)
  next
    case True
    with Cons.prems(2) obtain s ss' where x: "x = JStr s" and rest: "strs_of (filter truthy xs) = Inr ss'"
      and ss: "ss = s # ss'"
      by (cases x) (auto simp add: bindr_eq_Inl bindr_def split: sum.splits)
    from Cons.IH [OF _ rest] Cons.prems(1) obtain ts where "xs = map JStr ts"
      "ss' = filter (\<lambda>s. s \<noteq> []) ts"
      by auto
    with x ss True have "x # xs = map JStr (s # ts) \<and> ss = filter (\<lambda>s. s \<noteq> []) (s # ts)"
      by simp
    then show ?thesis by (rule exI)
  qed
qed

text \<open>
  Whenever one record is enriched, its \<^verbatim>\<open>equipmentDisplay\<close> is the names that are not
  empty among workcenter, machine and resource, in this order, joined by \<open>'' / ''\<close>; a
  null name counts as empty, and with all three empty the display is the empty string.
\<close>

theorem equipment_display_joins_names:
  assumes "attach_one job_mp h = Inr h2"
  shows "\<exists>wc mc rs.
      py_or (dget h2 ''workcenterName'') (JStr '''') = JStr wc
      \<and> py_or (dget h2 ''machineName'') (JStr '''') = JStr mc
      \<and> py_or (dget h2 ''resourceName'') (JStr '''') = JStr rs
      \<and> dget h2 ''equipmentDisplay''
          = JStr (join_strs '' / '' (filter (\<lambda>s. s \<noteq> []) [wc, mc, rs]))"
proof -
  from attach_one_result [OF assms] obtain d eq display where
    display: "py_join '' / '' (filter truthy
           [py_or (dget eq ''workcenterName'') (JStr ''''),
            py_or (dget eq ''machineName'') (JStr ''''),
            py_or (dget eq ''resourceName'') (JStr '''')]) = Inr display"
    and h2: "map_of h2 = (map_of d)
          (KStr ''workcenterName'' \<mapsto> dget eq ''workcenterName'',
           KStr ''machineName'' \<mapsto> dget eq ''machineName'',
           KStr ''resourceName'' \<mapsto> dget eq ''resourceName'',
           KStr ''equipmentDisplay'' \<mapsto> JStr display)"
    by blast
  from display obtain ss where ss: "strs_of (filter truthy
           [py_or (dget eq ''workcenterName'') (JStr ''''),
            py_or (dget eq ''machineName'') (JStr ''''),
            py_or (dget eq ''resourceName'') (JStr '''')]) = Inr ss"
    and joined: "display = join_strs '' / '' ss"
    by (auto simp add: py_join_def bindr_def split: sum.splits)
  have "\<forall>x \<in> set [py_or (dget eq ''workcenterName'') (JStr ''''),
            py_or (dget eq ''machineName'') (JStr ''''),
            py_or (dget eq ''resourceName'') (JStr '''')]. \<not> truthy x \<longrightarrow> x = JStr []"
    by (simp add: py_or_def)
  from strs_of_filter_truthy [OF this ss] obtain ts where
    both: "[py_or (dget eq ''workcenterName'') (JStr ''''),
          py_or (dget eq ''machineName'') (JStr ''''),
          py_or (dget eq ''resourceName'') (JStr '''')] = map JStr ts
        \<and> ss = filter (\<lambda>s. s \<noteq> []) ts" ..
  note ts = both [THEN conjunct1] and kept = both [THEN conjunct2]
  from ts obtain wc mc rs where names: "ts = [wc, mc, rs]"
    "py_or (dget eq ''workcenterName'') (JStr '''') = JStr wc"
    "py_or (dget eq ''machineName'') (JStr '''') = JStr mc"
    "py_or (dget eq ''resourceName'') (JStr '''') = JStr rs"
    by (auto simp add: Cons_eq_map_conv)
  have fields: "dget h2 ''workcenterName'' = dget eq ''workcenterName''"
    "dget h2 ''machineName'' = dget eq ''machineName''"
    "dget h2 ''resourceName'' = dget eq ''resourceName''"
    "dget h2 ''equipmentDisplay'' = JStr display"
    by (simp_all add: dget_def [of h2] h2)
  from names kept joined fields show ?thesis by simp
qed

theorem equipment_display_joins_names_witness:
  "attach_one [(KStr ''J1'', [(KStr ''workcenterName'', JStr ''WC1''),
                  (KStr ''machineName'', JNull), (KStr ''resourceName'', JStr ''R7'')])]
       (JObj [(''jobName'', JStr ''J1'')])
     = Inr [(KStr ''jobName'', JStr ''J1''), (KStr ''workcenterName'', JStr ''WC1''),
            (KStr ''machineName'', JNull), (KStr ''resourceName'', JStr ''R7''),
            (KStr ''equipmentDisplay'', JStr ''WC1 / R7'')]
   \<and> join_strs '' / '' (filter (\<lambda>s. s \<noteq> []) [''WC1'', [], ''R7'']) = ''WC1 / R7''"
proof -
  have run: "attach_one [(KStr ''J1'', [(KStr ''workcenterName'', JStr ''WC1''),
                  (KStr ''machineName'', JNull), (KStr ''resourceName'', JStr ''R7'')])]
       (JObj [(''jobName'', JStr ''J1'')])
     = Inr [(KStr ''jobName'', JStr ''J1''), (KStr ''workcenterName'', JStr ''WC1''),
            (KStr ''machineName'', JNull), (KStr ''resourceName'', JStr ''R7''),
            (KStr ''equipmentDisplay'', JStr ''WC1 / R7'')]"
    by (simp add: attach_one_def lookup_equipment_def dget_def py_or_def py_join_def Let_def)
  from equipment_display_joins_names [OF run] run show ?thesis by simp
qed

end
